theory Spec2Isabelle
  imports Main "HOL-Library.Sublist" "HOL-Library.Log_Nat"
begin

section \<open>JavaScript values, errors and string primitives\<close>

text \<open>
  The scraper of \<^verbatim>\<open>src/index.ts\<close> is a TypeScript class driving a browser. The model
  keeps the values the code computes on: strings are \<^typ>\<open>string\<close> (one \<^typ>\<open>char\<close> per
  code unit, so the model covers Latin-1 text), a thrown exception is the \<open>Inl\<close> side of a
  sum, \<^verbatim>\<open>undefined\<close> from an out-of-range index is \<open>None\<close>.
\<close>

datatype js_error = Error string | TypeError | SyntaxError

text \<open>
  The values an identifier field can hold in the source: \<^verbatim>\<open>undefined\<close>, \<^verbatim>\<open>null\<close>
  (a post without \<^verbatim>\<open>data-urn\<close>), a number (the comment extractor's \<^verbatim>\<open>|| 0\<close>) or the
  string cut out of the URN. Numbers are the non-negative integers only.
\<close>

datatype jsval = Undefined | Null | Num nat | Str string

definition is_digit :: "char \<Rightarrow> bool" where
  "is_digit c = (48 \<le> (of_char c :: nat) \<and> (of_char c :: nat) \<le> 57)"

definition digit_value :: "char \<Rightarrow> nat" where
  "digit_value c = of_char c - 48"

text \<open>
  \<^verbatim>\<open>StringToBigInt\<close> on a string of decimal digits; the empty string is \<^verbatim>\<open>0n\<close>.
  JavaScript also accepts a sign, surrounding white space and the prefixes
  \<^verbatim>\<open>0x 0o 0b\<close>; identifiers cut out of a URN are plain decimal numerals, and the
  model rejects every other string.
\<close>

definition StringToBigInt :: "string \<Rightarrow> nat option" where
  "StringToBigInt s =
     (if list_all is_digit s then Some (foldl (\<lambda>a c. 10 * a + digit_value c) 0 s) else None)"

text \<open>\<^verbatim>\<open>BigInt(v)\<close>: a TypeError on undefined and null, a SyntaxError on a bad string.\<close>

fun BigInt :: "jsval \<Rightarrow> js_error + nat" where
  "BigInt Undefined = Inl TypeError"
| "BigInt Null = Inl TypeError"
| "BigInt (Num n) = Inr n"
| "BigInt (Str s) = (case StringToBigInt s of None \<Rightarrow> Inl SyntaxError | Some n \<Rightarrow> Inr n)"

text \<open>\<^verbatim>\<open>n.toString(2)\<close> of a non-negative BigInt: most significant digit first.\<close>

definition bit_char :: "nat \<Rightarrow> char" where
  "bit_char d = (if d = 0 then CHR ''0'' else CHR ''1'')"

fun toString2 :: "nat \<Rightarrow> string" where
  "toString2 n = (if n < 2 then [bit_char n] else toString2 (n div 2) @ [bit_char (n mod 2)])"

declare toString2.simps [simp del]

text \<open>\<^verbatim>\<open>s.slice(b, e)\<close> for non-negative \<open>b\<close> and \<open>e\<close>.\<close>

definition slice :: "nat \<Rightarrow> nat \<Rightarrow> 'a list \<Rightarrow> 'a list" where
  "slice b e s = take (e - b) (drop b s)"

text \<open>
  \<^verbatim>\<open>parseInt(s, 2)\<close>: the longest prefix of binary digits is read; with no digit the
  result is NaN, here \<open>None\<close>. (A leading sign or white space, which \<^verbatim>\<open>parseInt\<close>
  would skip, does not occur in the output of \<^verbatim>\<open>toString(2)\<close> on a non-negative
  BigInt.) The result is a Number; a prefix of 41 digits is below \<open>2^53\<close> and exact.
\<close>

definition is_bit :: "char \<Rightarrow> bool" where
  "is_bit c = (c = CHR ''0'' \<or> c = CHR ''1'')"

definition bit_value :: "char \<Rightarrow> nat" where
  "bit_value c = (if c = CHR ''1'' then 1 else 0)"

definition bits_value :: "string \<Rightarrow> nat" where
  "bits_value ds = foldl (\<lambda>a c. 2 * a + bit_value c) 0 ds"

definition parseInt2 :: "string \<Rightarrow> nat option" where
  "parseInt2 s =
     (let ds = takeWhile is_bit s
      in if ds = [] then None else Some (bits_value ds))"

text \<open>\<^verbatim>\<open>xs[i]\<close>: \<^verbatim>\<open>undefined\<close> (here \<open>None\<close>) past the end.\<close>

definition nth_opt :: "'a list \<Rightarrow> nat \<Rightarrow> 'a option" where
  "nth_opt xs i = (if i < length xs then Some (xs ! i) else None)"

text \<open>
  \<^verbatim>\<open>s.split(sep)\<close> for a non-empty separator (every call site passes a literal): the
  pieces between the occurrences of \<open>sep\<close>, found from the left; always at least one
  piece.
\<close>

function split_str :: "string \<Rightarrow> string \<Rightarrow> string list" where
  "split_str [] sep = [[]]"
| "split_str (c # cs) sep =
     (if sep \<noteq> [] \<and> prefix sep (c # cs)
      then [] # split_str (drop (length sep) (c # cs)) sep
      else (case split_str cs sep of [] \<Rightarrow> [[c]] | p # ps \<Rightarrow> (c # p) # ps))"
  by pat_completeness auto
termination
  by (relation "measure (\<lambda>(s, sep). length s)") auto

text \<open>\<^verbatim>\<open>s.includes(t)\<close>: \<open>t\<close> occurs in \<open>s\<close>.\<close>

fun includes_str :: "string \<Rightarrow> string \<Rightarrow> bool" where
  "includes_str [] t = (t = [])"
| "includes_str (c # cs) t = (prefix t (c # cs) \<or> includes_str cs t)"

text \<open>\<^verbatim>\<open>xs.join(sep)\<close> on an array of strings.\<close>

fun join_str :: "string list \<Rightarrow> string \<Rightarrow> string" where
  "join_str [] sep = []"
| "join_str [x] sep = x"
| "join_str (x # y # ys) sep = x @ sep @ join_str (y # ys) sep"

text \<open>The decimal rendering of a number, as a template literal or a property key shows it.\<close>

definition digit_char :: "nat \<Rightarrow> char" where
  "digit_char d = ''0123456789'' ! d"

fun decimal :: "nat \<Rightarrow> string" where
  "decimal n = (if n < 10 then [digit_char n] else decimal (n div 10) @ [digit_char (n mod 10)])"

declare decimal.simps [simp del]

text \<open>\<^verbatim>\<open>`${v}`\<close>: a value inside a template literal.\<close>

fun template :: "jsval \<Rightarrow> string" where
  "template Undefined = ''undefined''"
| "template Null = ''null''"
| "template (Num n) = decimal n"
| "template (Str s) = s"

text \<open>\<^verbatim>\<open>v || null\<close> on a string that may be undefined: the empty string is falsy too.\<close>

definition or_null :: "string option \<Rightarrow> string option" where
  "or_null v = (case v of None \<Rightarrow> None | Some s \<Rightarrow> if s = [] then None else Some s)"

subsection \<open>Numbers\<close>

text \<open>
  A Number is an IEEE double. \<open>round_to_double n\<close> is the double nearest to the
  integer \<open>n\<close>, ties to the even significand (53 bits); \<open>None\<close> is \<^verbatim>\<open>Infinity\<close>.
  This is what \<^verbatim>\<open>StringToNumber\<close> makes of a decimal numeral (for numerals of at most
  20 significant digits the language fixes this rounding).
\<close>

definition round_to_double :: "nat \<Rightarrow> nat option" where
  "round_to_double n =
     (let w = length (toString2 n)
      in if w \<le> 53 then Some n
         else
           (let e = w - 53;
                q = n div 2 ^ e;
                r = n mod 2 ^ e;
                q' = (if 2 ^ e < 2 * r \<or> (2 * r = 2 ^ e \<and> odd q) then q + 1 else q);
                v = q' * 2 ^ e
            in if 2 ^ 1024 \<le> v then None else Some v))"

datatype number = NaN | Finite nat | Infinity

text \<open>
  \<^verbatim>\<open>ToNumber\<close>: undefined is NaN, null is 0, a decimal numeral is rounded to a
  double. A string that is not a decimal numeral is NaN in the model; inside the
  extractors no such string reaches a comparison, \<^verbatim>\<open>BigInt\<close> has thrown before.
\<close>

fun ToNumber :: "jsval \<Rightarrow> number" where
  "ToNumber Undefined = NaN"
| "ToNumber Null = Finite 0"
| "ToNumber (Num n) = Finite n"
| "ToNumber (Str s) =
     (case StringToBigInt s of
        None \<Rightarrow> NaN
      | Some v \<Rightarrow> (case round_to_double v of None \<Rightarrow> Infinity | Some d \<Rightarrow> Finite d))"

text \<open>
  \<^verbatim>\<open>v > w\<close> with a Number on the right (the watermarks are declared \<^verbatim>\<open>number\<close>):
  the left operand is converted by \<^verbatim>\<open>ToNumber\<close>, and NaN compares false.
\<close>

fun number_gt :: "number \<Rightarrow> nat \<Rightarrow> bool" where
  "number_gt NaN w = False"
| "number_gt (Finite d) w = (w < d)"
| "number_gt Infinity w = True"

definition js_gt :: "jsval \<Rightarrow> nat \<Rightarrow> bool" where
  "js_gt v w = number_gt (ToNumber v) w"

subsection \<open>Arrays built in a loop, and arrays spread into objects\<close>

text \<open>
  Every extractor runs \<^verbatim>\<open>for (...) { ... data.push(...) }\<close> over the elements a
  selector returned. \<open>for_each body xs data\<close> runs \<open>body\<close> on each element with the
  array built so far; an exception thrown by the body ends the loop.
\<close>

fun for_each :: "('a \<Rightarrow> 'b list \<Rightarrow> js_error + 'b list) \<Rightarrow> 'a list \<Rightarrow> 'b list \<Rightarrow> js_error + 'b list" where
  "for_each body [] data = Inr data"
| "for_each body (x # xs) data =
     (case body x data of Inl e \<Rightarrow> Inl e | Inr data' \<Rightarrow> for_each body xs data')"

text \<open>
  A section of the result is an array, or the object \<^verbatim>\<open>{...array}\<close> that the spread
  of an array into an object literal gives: the properties \<^verbatim>\<open>"0"\<close>, \<^verbatim>\<open>"1"\<close>, ...
\<close>

datatype 'a js_list = Array "'a list" | Object "(string \<times> 'a) list"

definition spread :: "'a list \<Rightarrow> 'a js_list" where
  "spread xs = Object (zip (map decimal [0..<length xs]) xs)"

section \<open>TimestampCodec: \<^verbatim>\<open>extractUnixTimestamp\<close>\<close>

text \<open>
  \<^verbatim>\<open>
  public extractUnixTimestamp(postId) {
    const asBinary = BigInt(postId).toString(2);
    const first41Chars = asBinary.slice(0, 41);
    const timestamp = parseInt(first41Chars, 2);
    return timestamp;
  }
  \<close>
\<close>

definition timestamp_of_bigint :: "nat \<Rightarrow> nat option" where
  "timestamp_of_bigint v =
     (let asBinary = toString2 v;
          first41Chars = slice 0 41 asBinary;
          timestamp = parseInt2 first41Chars
      in timestamp)"

definition extractUnixTimestamp :: "jsval \<Rightarrow> js_error + nat option" where
  "extractUnixTimestamp postId =
     (case BigInt postId of
        Inl e \<Rightarrow> Inl e
      | Inr v \<Rightarrow> Inr (timestamp_of_bigint v))"

text \<open>
  The functions of \<^verbatim>\<open>./utils\<close> and the platform's \<^verbatim>\<open>Date\<close> rendering are not part
  of \<^verbatim>\<open>index.ts\<close>; the model takes them as parameters.
\<close>

record location =
  city :: "string option"
  province :: "string option"
  country :: "string option"

record lib =
  getCleanText :: "string option \<Rightarrow> string option"
  getLocationFromText :: "string \<Rightarrow> location option"
  formatDate :: "string option \<Rightarrow> string option"
  getDurationInDays :: "string option \<Rightarrow> string option \<Rightarrow> int option"
  toUTCString :: "nat \<Rightarrow> string"

text \<open>
  An instance of the parameters, for evaluating the model on concrete pages: texts and
  dates are left as they are, no location and no duration is computed, and an instant
  is shown as its number of milliseconds.
\<close>

definition plain_lib :: lib where
  "plain_lib =
     \<lparr> getCleanText = (\<lambda>t. t),
       getLocationFromText = (\<lambda>s. None),
       formatDate = (\<lambda>d. d),
       getDurationInDays = (\<lambda>a b. None),
       toUTCString = decimal \<rparr>"

text \<open>
  \<^verbatim>\<open>new Date(timestamp).toUTCString() + " (UTC)"\<close>, as \<^verbatim>\<open>unixTimestampToHumanDate\<close>
  and the two feed extractors compute it.
\<close>

definition unixTimestampToHumanDate :: "lib \<Rightarrow> nat option \<Rightarrow> string" where
  "unixTimestampToHumanDate L timestamp =
     (case timestamp of None \<Rightarrow> ''Invalid Date'' | Some t \<Rightarrow> toUTCString L t) @ '' (UTC)''"

section \<open>Feed extractors and the incremental-sync filter\<close>

subsection \<open>Posts\<close>

text \<open>
  What the page gives for one \<^verbatim>\<open>.profile-creator-shared-feed-update__container\<close>:
  the \<^verbatim>\<open>data-urn\<close> of its first descendant that has one, the text of its
  \<^verbatim>\<open>.break-words\<close> element, and what \<^verbatim>\<open>parseInt\<close> reads from the three counters
  (\<open>None\<close> is NaN).
\<close>

record post_element =
  data_urn :: "string option"
  break_words_text :: "string option"
  reactions_count :: "nat option"
  comments_count :: "nat option"
  shares_count :: "nat option"

record post_data =
  postId :: jsval
  postText :: "string option"
  postDateDetails :: "string option"
  postLikes :: nat
  postComments :: "nat option"
  postShares :: "nat option"
  postUrl :: string

definition or_zero :: "nat option \<Rightarrow> nat" where
  "or_zero v = (case v of None \<Rightarrow> 0 | Some n \<Rightarrow> n)"

definition num_or_null :: "nat option \<Rightarrow> nat option" where
  "num_or_null v = (case v of None \<Rightarrow> None | Some n \<Rightarrow> if n = 0 then None else Some n)"

definition make_post :: "post_element \<Rightarrow> jsval \<Rightarrow> string option \<Rightarrow> post_data" where
  "make_post post pid details =
     \<lparr> postId = pid,
       postText = or_null (break_words_text post),
       postDateDetails = details,
       postLikes = or_zero (reactions_count post),
       postComments = num_or_null (comments_count post),
       postShares = num_or_null (shares_count post),
       postUrl = ''https://www.linkedin.com/feed/update/urn:li:activity:'' @ template pid \<rparr>"

text \<open>
  The body of the loop over the posts (lines 592-637): with a URN the identifier is its
  fourth \<^verbatim>\<open>:\<close>-separated piece and the date is decoded from it; without one both
  are null.
\<close>

definition post_data_of :: "lib \<Rightarrow> post_element \<Rightarrow> js_error + post_data" where
  "post_data_of L post =
     (case or_null (data_urn post) of
        Some postIdDict \<Rightarrow>
          (let pid = (case nth_opt (split_str postIdDict '':'') 3 of
                        None \<Rightarrow> Undefined | Some s \<Rightarrow> Str s)
           in case BigInt pid of
                Inl e \<Rightarrow> Inl e
              | Inr v \<Rightarrow>
                  Inr (make_post post pid (Some (unixTimestampToHumanDate L (timestamp_of_bigint v)))))
      | None \<Rightarrow> Inr (make_post post Null None))"

definition posts_evaluate :: "lib \<Rightarrow> post_element list \<Rightarrow> js_error + post_data list" where
  "posts_evaluate L posts =
     for_each (\<lambda>post postDataArray.
        case post_data_of L post of
          Inl e \<Rightarrow> Inl e
        | Inr postData \<Rightarrow> Inr (postDataArray @ [postData])) posts []"

text \<open>
  \<^verbatim>\<open>rawUserPostData.filter((post) => { return post.postId > lastPostID })\<close>
\<close>

definition filterNewPosts :: "nat \<Rightarrow> post_data list \<Rightarrow> post_data list" where
  "filterNewPosts lastPostID rawUserPostData =
     filter (\<lambda>post. js_gt (postId post) lastPostID) rawUserPostData"

subsection \<open>Comments\<close>

text \<open>
  What the page gives for one \<^verbatim>\<open>.comments-comment-item\<close>: its
  \<^verbatim>\<open>.comments-post-meta__name-text\<close> element if any (the text of that element's
  \<^verbatim>\<open>span[aria-hidden="true"]\<close> if it has one, and its own text), the text of its
  \<^verbatim>\<open>.comments-comment-item__main-content\<close> if any, and its \<^verbatim>\<open>data-id\<close> attribute.
\<close>

record comment_element =
  name_text :: "(string option \<times> string) option"
  main_content :: "string option"
  data_id :: "string option"

record comment_data =
  commentId :: jsval
  commentPostId :: jsval
  commentText :: string
  commentDateDetails :: string
  commentUrl :: string

text \<open>\<^verbatim>\<open>s || 0\<close> on a string.\<close>

definition str_or_zero :: "string \<Rightarrow> jsval" where
  "str_or_zero s = (if s = [] then Num 0 else Str s)"

text \<open>
  \<^verbatim>\<open>getAttribute('data-id')?.split(":")[4].split(",")[k]\<close>: the optional chain
  gives undefined without the attribute; a missing piece makes the next \<^verbatim>\<open>split\<close>
  a TypeError.
\<close>

definition data_id_piece :: "string option \<Rightarrow> nat \<Rightarrow> js_error + string option" where
  "data_id_piece attr k =
     (case attr of
        None \<Rightarrow> Inr None
      | Some d \<Rightarrow>
          (case nth_opt (split_str d '':'') 4 of
             None \<Rightarrow> Inl TypeError
           | Some a \<Rightarrow> Inr (nth_opt (split_str a '','') k)))"

definition commentId_of :: "string option \<Rightarrow> js_error + jsval" where
  "commentId_of attr =
     (case data_id_piece attr 1 of
        Inl e \<Rightarrow> Inl e
      | Inr None \<Rightarrow> (case attr of None \<Rightarrow> Inr (Num 0) | Some d \<Rightarrow> Inl TypeError)
      | Inr (Some b) \<Rightarrow>
          (case nth_opt (split_str b '')'') 0 of
             None \<Rightarrow> Inr (Num 0)
           | Some s \<Rightarrow> Inr (str_or_zero s)))"

definition commentPostId_of :: "string option \<Rightarrow> js_error + jsval" where
  "commentPostId_of attr =
     (case data_id_piece attr 0 of
        Inl e \<Rightarrow> Inl e
      | Inr None \<Rightarrow> Inr (Num 0)
      | Inr (Some s) \<Rightarrow> Inr (str_or_zero s))"

definition make_comment :: "lib \<Rightarrow> jsval \<Rightarrow> jsval \<Rightarrow> string \<Rightarrow> nat \<Rightarrow> comment_data" where
  "make_comment L cid pid txt v =
     \<lparr> commentId = cid,
       commentPostId = pid,
       commentText = txt,
       commentDateDetails = unixTimestampToHumanDate L (timestamp_of_bigint v),
       commentUrl =
         ''https://www.linkedin.com/feed/update/urn:li:activity:'' @ template pid
         @ ''/?commentUrn=urn:li:comment:(activity:'' @ template pid @ '','' @ template cid
         @ '')&dashCommentUrn=urn:li:fsd_comment:('' @ template cid
         @ '',urn:li:activity:'' @ template pid @ '')'' \<rparr>"

text \<open>
  The body of the loop over the comment items (lines 692-720). A comment is pushed when
  its author is the profile owner and no comment pushed before has the same text.
  \<open>push_comment\<close> is the inner block (lines 702-717): the identifiers are cut out of
  \<^verbatim>\<open>data-id\<close>, the date is decoded and the record is pushed.
\<close>

definition push_comment ::
  "lib \<Rightarrow> comment_element \<Rightarrow> string \<Rightarrow> comment_data list \<Rightarrow> js_error + comment_data list" where
  "push_comment L c txt profile_owner_comments =
     (case commentId_of (data_id c) of
        Inl e \<Rightarrow> Inl e
      | Inr cid \<Rightarrow>
          (case commentPostId_of (data_id c) of
             Inl e \<Rightarrow> Inl e
           | Inr pid \<Rightarrow>
               (case BigInt cid of
                  Inl e \<Rightarrow> Inl e
                | Inr v \<Rightarrow> Inr (profile_owner_comments @ [make_comment L cid pid txt v]))))"

definition comment_step ::
  "lib \<Rightarrow> string option \<Rightarrow> comment_element \<Rightarrow> comment_data list \<Rightarrow> js_error + comment_data list" where
  "comment_step L profile_owner c profile_owner_comments =
     (case name_text c of
        None \<Rightarrow> Inl TypeError
      | Some (hidden, inner) \<Rightarrow>
          (let author = (case hidden of Some a \<Rightarrow> a | None \<Rightarrow> inner)
           in case main_content c of
                None \<Rightarrow> Inl TypeError
              | Some txt \<Rightarrow>
                  if Some author = profile_owner
                  then
                    if txt \<notin> set (map commentText profile_owner_comments)
                    then push_comment L c txt profile_owner_comments
                    else Inr profile_owner_comments
                  else Inr profile_owner_comments))"

text \<open>
  The page of the comments: \<^verbatim>\<open>document.title\<close> and the comment items in document
  order. The owner is the second \<^verbatim>\<open>" | "\<close>-separated piece of the title.
\<close>

record comments_dom =
  document_title :: string
  comment_items :: "comment_element list"

definition profile_owner_of :: "string \<Rightarrow> string option" where
  "profile_owner_of title_text = nth_opt (split_str title_text '' | '') 1"

definition comments_evaluate :: "lib \<Rightarrow> comments_dom \<Rightarrow> js_error + comment_data list" where
  "comments_evaluate L page =
     (let profile_owner = profile_owner_of (document_title page)
      in for_each (comment_step L profile_owner) (comment_items page) [])"

text \<open>
  \<^verbatim>\<open>rawComment.filter((comment) => { return comment.commentId > lastCommentID })\<close>
\<close>

definition filterNewComments :: "nat \<Rightarrow> comment_data list \<Rightarrow> comment_data list" where
  "filterNewComments lastCommentID rawComment =
     filter (\<lambda>comment. js_gt (commentId comment) lastCommentID) rawComment"

text \<open>
  An identifier that denotes a positive number: a non-zero number, or a decimal numeral
  of non-zero value; not null and not undefined.
\<close>

fun id_positive :: "jsval \<Rightarrow> bool" where
  "id_positive Undefined = False"
| "id_positive Null = False"
| "id_positive (Num n) = (0 < n)"
| "id_positive (Str s) = (case StringToBigInt s of None \<Rightarrow> False | Some n \<Rightarrow> 0 < n)"



section \<open>Section extractors\<close>

text \<open>
  The experience, volunteering and honors extractors read the \<^verbatim>\<open>innerText\<close> of every
  \<^verbatim>\<open>.pvs-list__paged-list-item\<close>, split it at the line breaks and keep the lines of
  even index:
  \<^verbatim>\<open>innerText.split('\n').filter(function(value, index, Arr) { return index % 2 == 0; })\<close>
\<close>

fun even_indexed :: "'a list \<Rightarrow> 'a list" where
  "even_indexed [] = []"
| "even_indexed [x] = [x]"
| "even_indexed (x # y # zs) = x # even_indexed zs"

definition even_lines :: "string \<Rightarrow> string list" where
  "even_lines innerText = even_indexed (split_str innerText [CHR 0x0A])"

text \<open>\<^verbatim>\<open>s.split(sep)[0]\<close>: always defined, \<^verbatim>\<open>split\<close> returns at least one piece.\<close>

definition first_piece :: "string \<Rightarrow> string \<Rightarrow> string" where
  "first_piece s sep = (case split_str s sep of [] \<Rightarrow> [] | p # ps \<Rightarrow> p)"

text \<open>The separator of the date line: a space, a middle dot (U+00B7), a space.\<close>

definition dot_separator :: string where
  "dot_separator = [CHR '' '', CHR 0xB7, CHR '' '']"

text \<open>
  \<^verbatim>\<open>Experience\<close> and \<^verbatim>\<open>Volunteering\<close> are the same structural type. The fields hold
  what the loop stores: \<^verbatim>\<open>exps[1]\<close> and the second piece of the date range may be
  undefined.
\<close>

record experience =
  title :: string
  company :: "string option"
  startDate :: string
  endDate :: "string option"
  description :: string

text \<open>
  The body of the loop of \<^verbatim>\<open>getExperiences\<close> (lines 769-789) and, with \<^verbatim>\<open>vols\<close> for
  \<^verbatim>\<open>exps\<close>, of \<^verbatim>\<open>getVolunteerings\<close> (lines 885-905). \<^verbatim>\<open>exps[2]\<close> undefined makes
  \<^verbatim>\<open>dates.split\<close> a TypeError.
\<close>

definition experience_step :: "string \<Rightarrow> experience list \<Rightarrow> js_error + experience list" where
  "experience_step innerText data =
     (let exps = even_lines innerText
      in case nth_opt exps 0 of
           None \<Rightarrow> Inl TypeError
         | Some label \<Rightarrow>
             if \<not> includes_str label ''Nothing to see''
             then
               (case nth_opt exps 2 of
                  None \<Rightarrow> Inl TypeError
                | Some dates \<Rightarrow>
                    Inr (data @
                      [\<lparr> title = label,
                         company = nth_opt exps 1,
                         startDate = first_piece (first_piece dates dot_separator) '' - '',
                         endDate = nth_opt (split_str (first_piece dates dot_separator) '' - '') 1,
                         description = join_str (drop 3 exps) '', '' \<rparr>]))
             else Inr data)"

definition experiences_evaluate :: "string list \<Rightarrow> js_error + experience list" where
  "experiences_evaluate items = for_each experience_step items []"

definition volunteerings_evaluate :: "string list \<Rightarrow> js_error + experience list" where
  "volunteerings_evaluate items = for_each experience_step items []"

text \<open>
  The honors (lines 947-964); the field names \<^verbatim>\<open>title\<close>, \<^verbatim>\<open>company\<close> and
  \<^verbatim>\<open>description\<close> of the source carry a prefix here. \<^verbatim>\<open>hons[1]\<close> undefined makes
  \<^verbatim>\<open>hons[1].split\<close> a TypeError.
\<close>

record honor =
  honor_title :: string
  honor_company :: string
  date :: "string option"
  honor_description :: string

definition honor_step :: "string \<Rightarrow> honor list \<Rightarrow> js_error + honor list" where
  "honor_step innerText data =
     (let hons = even_lines innerText
      in case nth_opt hons 0 of
           None \<Rightarrow> Inl TypeError
         | Some label \<Rightarrow>
             if \<not> includes_str label ''Nothing to see''
             then
               (case nth_opt hons 1 of
                  None \<Rightarrow> Inl TypeError
                | Some line \<Rightarrow>
                    Inr (data @
                      [\<lparr> honor_title = label,
                         honor_company = first_piece line dot_separator,
                         date = nth_opt (split_str line dot_separator) 1,
                         honor_description = join_str (drop 2 hons) '', '' \<rparr>]))
             else Inr data)"

definition honors_evaluate :: "string list \<Rightarrow> js_error + honor list" where
  "honors_evaluate items = for_each honor_step items []"

text \<open>The skills (lines 835-842): the first line of each element, when it is not empty.\<close>

record skill =
  skillName :: string

definition skill_step :: "string \<Rightarrow> skill list \<Rightarrow> js_error + skill list" where
  "skill_step innerText data =
     (let name = first_piece innerText [CHR 0x0A]
      in if name \<noteq> [] then Inr (data @ [\<lparr> skillName = name \<rparr>]) else Inr data)"

definition skills_evaluate :: "string list \<Rightarrow> js_error + skill list" where
  "skills_evaluate items = for_each skill_step items []"

text \<open>
  The element's primary label, the first parsed text field, carries the empty-state
  marker.
\<close>

definition is_empty_state :: "string \<Rightarrow> bool" where
  "is_empty_state innerText =
     (case nth_opt (even_lines innerText) 0 of
        None \<Rightarrow> False
      | Some label \<Rightarrow> includes_str label ''Nothing to see'')"

subsection \<open>The profile page\<close>

text \<open>
  The callback evaluated on the profile page only reads the document; the model takes
  what it returns: the raw profile and the raw education, license and language
  entries. \<^verbatim>\<open>RawProfile\<close> (all strings) and \<^verbatim>\<open>Profile\<close> differ in the type of the
  text fields and of the location; \<^verbatim>\<open>title\<close>, \<^verbatim>\<open>startDate\<close> and \<^verbatim>\<open>endDate\<close> carry a
  prefix here.
\<close>

record ('t, 'l) profile =
  fullName :: 't
  pronouns :: 't
  profile_title :: 't
  location :: 'l
  about :: 't
  photo :: string
  url :: string

record raw_education =
  schoolName :: "string option"
  degreeName :: "string option"
  edu_startDate :: "string option"
  edu_endDate :: "string option"

record education = raw_education +
  durationInDays :: "int option"

record license =
  licenseName :: "string option"
  licenseBody :: "string option"

record language =
  languageName :: "string option"
  languageLevel :: "string option"

record profile_dom =
  raw_profile :: "(string, string) profile"
  raw_education :: "raw_education list"
  raw_license :: "license list"
  raw_language :: "language list"

definition userProfile_of :: "lib \<Rightarrow> (string, string) profile \<Rightarrow> (string option, location option) profile" where
  "userProfile_of L raw =
     \<lparr> fullName = getCleanText L (Some (fullName raw)),
       pronouns = getCleanText L (Some (pronouns raw)),
       profile_title = getCleanText L (Some (profile_title raw)),
       location = (if location raw \<noteq> [] then getLocationFromText L (location raw) else None),
       about = getCleanText L (Some (about raw)),
       photo = photo raw,
       url = url raw \<rparr>"

definition education_of :: "lib \<Rightarrow> raw_education \<Rightarrow> education" where
  "education_of L rawEducation =
     (let startD = formatDate L (edu_startDate rawEducation);
          endD = formatDate L (edu_endDate rawEducation)
      in \<lparr> schoolName = getCleanText L (schoolName rawEducation),
           degreeName = getCleanText L (degreeName rawEducation),
           edu_startDate = startD,
           edu_endDate = endD,
           durationInDays = getDurationInDays L startD endD \<rparr>)"

definition license_of :: "lib \<Rightarrow> license \<Rightarrow> license" where
  "license_of L rawLicense =
     \<lparr> licenseName = getCleanText L (licenseName rawLicense),
       licenseBody = getCleanText L (licenseBody rawLicense) \<rparr>"

definition language_of :: "lib \<Rightarrow> language \<Rightarrow> language" where
  "language_of L rawLanguage =
     \<lparr> languageName = getCleanText L (languageName rawLanguage),
       languageLevel = getCleanText L (languageLevel rawLanguage) \<rparr>"

section \<open>The session: \<^verbatim>\<open>close\<close>, the extractors' pages and \<^verbatim>\<open>run\<close>\<close>

text \<open>
  What the scraper does to the browser is recorded as a list of events, in order. The
  scraper object holds its options and \<^verbatim>\<open>this.browser\<close> (set by \<^verbatim>\<open>setup\<close>); no
  method modelled here assigns either.
\<close>

datatype event = NewPage | CloseFirstPage | Goto string | ClosePage | CloseBrowser | KillProcess

record scraper =
  keepAlive :: bool
  browser :: bool

type_synonym 'a outcome = "event list \<times> (js_error + 'a)"

text \<open>Sequencing of awaited steps: an exception skips the rest, the events accumulate.\<close>

definition and_then :: "'a outcome \<Rightarrow> ('a \<Rightarrow> 'b outcome) \<Rightarrow> 'b outcome" where
  "and_then m f =
     (case m of
        (es, Inl e) \<Rightarrow> (es, Inl e)
      | (es, Inr a) \<Rightarrow> (case f a of (es', r) \<Rightarrow> (es @ es', r)))"

definition pure_step :: "js_error + 'a \<Rightarrow> 'a outcome" where
  "pure_step r = ([], r)"

text \<open>
  \<^verbatim>\<open>
  public close = (page?: Page): Promise<void> => {
    return new Promise (async (resolve, reject) => {
      resolve()
    })
    return new Promise(async (resolve, reject) => { ... page.close() ...
      this.browser.close() ... treeKill(browserProcessPid, 'SIGKILL', ...) ... })
  }
  \<close>
  The first \<^verbatim>\<open>return\<close> gives a promise that resolves at once; the second statement,
  which closes the page and the browser and kills the process, is never reached. The
  argument says whether a page was passed.
\<close>

definition close :: "bool \<Rightarrow> unit outcome" where
  "close page = ([], Inr ())"

text \<open>
  What the browser does with one page of a run: creating the page fails
  (\<^verbatim>\<open>createPage\<close> rejects), or the page is created and navigation, the waits or the
  scrolling fail, or the page is rendered and the evaluated callback reads \<open>d\<close> from
  the document.
\<close>

datatype 'd page_load = CreatePageFails js_error | LoadFails js_error | Loaded 'd

text \<open>
  \<^verbatim>\<open>createPage\<close> (lines 304-390): without a browser it throws; it opens a new page and
  closes the browser's first one; when a step fails it calls \<^verbatim>\<open>close()\<close> and rethrows.
\<close>

definition createPage :: "scraper \<Rightarrow> 'd page_load \<Rightarrow> unit outcome" where
  "createPage S p =
     (if \<not> browser S then ([], Inl (Error ''Browser not set.''))
      else
        (case p of
           CreatePageFails e \<Rightarrow> and_then (close False) (\<lambda>u. ([], Inl e))
         | LoadFails e \<Rightarrow> ([NewPage, CloseFirstPage], Inr ())
         | Loaded d \<Rightarrow> ([NewPage, CloseFirstPage], Inr ())))"

text \<open>
  \<^verbatim>\<open>page.goto(url)\<close>, the waits, \<^verbatim>\<open>autoScroll\<close> and the reading of the document by
  \<^verbatim>\<open>page.evaluate\<close>.
\<close>

definition goto_and_read :: "string \<Rightarrow> 'd page_load \<Rightarrow> 'd outcome" where
  "goto_and_read target p =
     (case p of
        CreatePageFails e \<Rightarrow> ([], Inl e)
      | LoadFails e \<Rightarrow> ([Goto target], Inl e)
      | Loaded d \<Rightarrow> ([Goto target], Inr d))"

definition open_page :: "scraper \<Rightarrow> string \<Rightarrow> 'd page_load \<Rightarrow> 'd outcome" where
  "open_page S target p = and_then (createPage S p) (\<lambda>u. goto_and_read target p)"

text \<open>The pages of one run, and whether the final \<^verbatim>\<open>page.close()\<close> rejects.\<close>

record world =
  profile_page :: "profile_dom page_load"
  experience_page :: "string list page_load"
  skills_page :: "string list page_load"
  volunteering_page :: "string list page_load"
  honors_page :: "string list page_load"
  posts_page :: "post_element list page_load"
  comments_page :: "comments_dom page_load"
  page_close_error :: "js_error option"

text \<open>
  The extractors (lines 539-978). Each opens its page at a URL built from the profile
  URL, evaluates its loop and rethrows what is thrown. \<^verbatim>\<open>getExperiences\<close>,
  \<^verbatim>\<open>getPosts\<close> and \<^verbatim>\<open>getComments\<close> return \<^verbatim>\<open>{...array}\<close>, the others the array.
\<close>

definition getExperiences :: "scraper \<Rightarrow> world \<Rightarrow> string \<Rightarrow> experience js_list outcome" where
  "getExperiences S W profileUrl =
     and_then (open_page S (profileUrl @ ''details/experience/'') (experience_page W))
       (\<lambda>items. case experiences_evaluate items of
                   Inl e \<Rightarrow> pure_step (Inl e)
                 | Inr rawExperiences \<Rightarrow> pure_step (Inr (spread rawExperiences)))"

definition getSkills :: "scraper \<Rightarrow> world \<Rightarrow> string \<Rightarrow> skill js_list outcome" where
  "getSkills S W profileUrl =
     and_then (open_page S (profileUrl @ ''details/skills/'') (skills_page W))
       (\<lambda>items. case skills_evaluate items of
                   Inl e \<Rightarrow> pure_step (Inl e)
                 | Inr skills \<Rightarrow> pure_step (Inr (Array skills)))"

definition getVolunteerings :: "scraper \<Rightarrow> world \<Rightarrow> string \<Rightarrow> experience js_list outcome" where
  "getVolunteerings S W profileUrl =
     and_then (open_page S (profileUrl @ ''details/volunteering-experiences/'') (volunteering_page W))
       (\<lambda>items. case volunteerings_evaluate items of
                   Inl e \<Rightarrow> pure_step (Inl e)
                 | Inr volunteerings \<Rightarrow> pure_step (Inr (Array volunteerings)))"

definition getHonors :: "scraper \<Rightarrow> world \<Rightarrow> string \<Rightarrow> honor js_list outcome" where
  "getHonors S W profileUrl =
     and_then (open_page S (profileUrl @ ''details/honors/'') (honors_page W))
       (\<lambda>items. case honors_evaluate items of
                   Inl e \<Rightarrow> pure_step (Inl e)
                 | Inr honors \<Rightarrow> pure_step (Inr (Array honors)))"

definition getPosts :: "lib \<Rightarrow> scraper \<Rightarrow> world \<Rightarrow> string \<Rightarrow> nat \<Rightarrow> post_data js_list outcome" where
  "getPosts L S W profileUrl lastPostID =
     and_then (open_page S (profileUrl @ ''recent-activity/all/'') (posts_page W))
       (\<lambda>posts. case posts_evaluate L posts of
                   Inl e \<Rightarrow> pure_step (Inl e)
                 | Inr rawUserPostData \<Rightarrow>
                     pure_step (Inr (spread (filterNewPosts lastPostID rawUserPostData))))"

definition getComments :: "lib \<Rightarrow> scraper \<Rightarrow> world \<Rightarrow> string \<Rightarrow> nat \<Rightarrow> comment_data js_list outcome" where
  "getComments L S W profileUrl lastCommentID =
     and_then (open_page S (profileUrl @ ''/recent-activity/comments/'') (comments_page W))
       (\<lambda>page. case comments_evaluate L page of
                  Inl e \<Rightarrow> pure_step (Inl e)
                | Inr rawComment \<Rightarrow>
                    pure_step (Inr (spread (filterNewComments lastCommentID rawComment))))"

text \<open>
  The caller's watermark. \<^verbatim>\<open>options?.lastPostID || 0\<close>: zero without options, and a
  zero stays zero.
\<close>

record ScraperHistoryMemory =
  lastPostID :: nat
  lastCommentID :: nat

definition lastPostID_of :: "ScraperHistoryMemory option \<Rightarrow> nat" where
  "lastPostID_of options =
     (case options of None \<Rightarrow> 0 | Some h \<Rightarrow> if lastPostID h \<noteq> 0 then lastPostID h else 0)"

definition lastCommentID_of :: "ScraperHistoryMemory option \<Rightarrow> nat" where
  "lastCommentID_of options =
     (case options of None \<Rightarrow> 0 | Some h \<Rightarrow> if lastCommentID h \<noteq> 0 then lastCommentID h else 0)"

text \<open>
  The object \<^verbatim>\<open>run\<close> returns: its properties in the order of the object literal
  (lines 1208-1216), each with the value of its section.
\<close>

datatype section_value =
    ProfileValue "(string option, location option) profile"
  | ExperienceValues "experience js_list"
  | EducationValues "education js_list"
  | SkillValues "skill js_list"
  | PostValues "post_data js_list"
  | CommentValues "comment_data js_list"

type_synonym aggregated = "(string \<times> section_value) list"

text \<open>
  \<^verbatim>\<open>return { userProfile, experiences, education, skills, volunteerings, posts, comments }\<close>
\<close>

definition returned_object ::
  "(string option, location option) profile \<Rightarrow> experience js_list \<Rightarrow> education list \<Rightarrow>
   skill js_list \<Rightarrow> experience js_list \<Rightarrow> post_data js_list \<Rightarrow> comment_data js_list \<Rightarrow>
   aggregated" where
  "returned_object userProfile experiences education skills volunteerings posts comments =
     [(''userProfile'', ProfileValue userProfile),
      (''experiences'', ExperienceValues experiences),
      (''education'', EducationValues (Array education)),
      (''skills'', SkillValues skills),
      (''volunteerings'', ExperienceValues volunteerings),
      (''posts'', PostValues posts),
      (''comments'', CommentValues comments)]"

text \<open>\<^verbatim>\<open>page.close()\<close> on the page of the profile.\<close>

definition page_close :: "world \<Rightarrow> unit outcome" where
  "page_close W =
     (case page_close_error W of None \<Rightarrow> ([ClosePage], Inr ()) | Some e \<Rightarrow> ([], Inl e))"

text \<open>
  The \<^verbatim>\<open>try\<close> block of \<^verbatim>\<open>run\<close> (lines 1003-1216). The honors, the licenses and the
  languages are computed; the returned object has no property for them.
\<close>

definition run_body ::
  "lib \<Rightarrow> scraper \<Rightarrow> world \<Rightarrow> string \<Rightarrow> nat \<Rightarrow> nat \<Rightarrow> aggregated outcome" where
  "run_body L S W profileUrl lastP lastC =
     and_then (open_page S profileUrl (profile_page W)) (\<lambda>rawUserProfilePageData.
       let userProfile = userProfile_of L (raw_profile rawUserProfilePageData);
           education = map (education_of L) (raw_education rawUserProfilePageData);
           license = map (license_of L) (raw_license rawUserProfilePageData);
           language = map (language_of L) (raw_language rawUserProfilePageData)
       in
       and_then (getExperiences S W profileUrl) (\<lambda>experiences.
       and_then (getSkills S W profileUrl) (\<lambda>skills.
       and_then (getVolunteerings S W profileUrl) (\<lambda>volunteerings.
       and_then (getHonors S W profileUrl) (\<lambda>honors.
       and_then (getPosts L S W profileUrl lastP) (\<lambda>posts.
       and_then (getComments L S W profileUrl lastC) (\<lambda>comments.
       and_then (if \<not> keepAlive S then close True else page_close W) (\<lambda>u.
         pure_step (Inr
           (returned_object userProfile experiences education skills volunteerings
              posts comments))))))))))"

text \<open>
  \<^verbatim>\<open>run\<close> (lines 982-1224): the three checks throw before the \<^verbatim>\<open>try\<close>; the
  \<^verbatim>\<open>catch\<close> calls \<^verbatim>\<open>close()\<close> and rethrows.
\<close>

definition run ::
  "lib \<Rightarrow> scraper \<Rightarrow> world \<Rightarrow> string \<Rightarrow> ScraperHistoryMemory option \<Rightarrow> aggregated outcome" where
  "run L S W profileUrl options =
     (let lastP = lastPostID_of options;
          lastC = lastCommentID_of options
      in if \<not> browser S
         then ([], Inl (Error ''Browser is not set. Please run the setup method first.''))
         else if profileUrl = []
         then ([], Inl (Error ''No profileUrl given.''))
         else if \<not> includes_str profileUrl ''linkedin.com/''
         then ([], Inl (Error ''The given URL to scrape is not a linkedin.com url.''))
         else
           (case run_body L S W profileUrl lastP lastC of
              (es, Inl err) \<Rightarrow> and_then (es, Inr ()) (\<lambda>u. and_then (close False) (\<lambda>u. ([], Inl err)))
            | (es, Inr result) \<Rightarrow> (es, Inr result)))"

text \<open>
  The specification's reading of ``the URL belongs to the expected site'': the host of
  the URL, the text between \<^verbatim>\<open>://\<close> and the next \<^verbatim>\<open>/\<close>, is \<^verbatim>\<open>linkedin.com\<close> or one of
  its subdomains.
\<close>

definition url_host :: "string \<Rightarrow> string" where
  "url_host u =
     (case split_str u ''://'' of
        [] \<Rightarrow> []
      | [rest] \<Rightarrow> takeWhile (\<lambda>c. c \<noteq> CHR ''/'') rest
      | scheme # rest # others \<Rightarrow> takeWhile (\<lambda>c. c \<noteq> CHR ''/'') rest)"

definition belongs_to_linkedin :: "string \<Rightarrow> bool" where
  "belongs_to_linkedin u =
     (url_host u = ''linkedin.com'' \<or> suffix ''.linkedin.com'' (url_host u))"

subsection \<open>A sample session\<close>

text \<open>
  A scraper after \<^verbatim>\<open>setup\<close> with the default \<^verbatim>\<open>keepAlive: false\<close>, and a browser in
  which every page of a run loads: a profile with one education, license and language
  entry, one experience, one skill, an empty volunteering list (the empty-state
  element), one honor, one post and one comment by the owner.
\<close>

definition sample_scraper :: scraper where
  "sample_scraper = \<lparr> keepAlive = False, browser = True \<rparr>"

definition sample_post :: post_element where
  "sample_post =
     \<lparr> data_urn = Some ''urn:li:activity:1024'', break_words_text = Some ''Hello'',
       reactions_count = Some 3, comments_count = None, shares_count = None \<rparr>"

definition sample_comment :: comment_element where
  "sample_comment =
     \<lparr> name_text = Some (Some ''Jane Doe'', ''Jane Doe (She/Her)''),
       main_content = Some ''Great post!'',
       data_id = Some ''urn:li:comment:(activity:1024,2048)'' \<rparr>"

definition sample_profile :: profile_dom where
  "sample_profile =
     \<lparr> raw_profile =
         \<lparr> fullName = ''Jane Doe'', pronouns = ''She/Her'', profile_title = ''Engineer'',
           location = ''Zurich'', about = [], photo = [],
           url = ''https://www.linkedin.com/in/jane/'' \<rparr>,
       raw_education =
         [\<lparr> schoolName = Some ''ETH'', degreeName = Some ''MSc'',
            edu_startDate = Some ''2015'', edu_endDate = Some ''2017'' \<rparr>],
       raw_license = [\<lparr> licenseName = Some ''PMP'', licenseBody = Some ''PMI'' \<rparr>],
       raw_language = [\<lparr> languageName = Some ''German'', languageLevel = None \<rparr>] \<rparr>"

definition sample_world :: world where
  "sample_world =
     \<lparr> profile_page = Loaded sample_profile,
       experience_page =
         Loaded [''Engineer'' @ [CHR 0x0A] @ ''Engineer'' @ [CHR 0x0A] @ ''Acme'' @ [CHR 0x0A]
                 @ ''Acme'' @ [CHR 0x0A] @ ''2019 - 2021''],
       skills_page = Loaded [''Isabelle''],
       volunteering_page = Loaded [''Nothing to see for now''],
       honors_page = Loaded [''Prize'' @ [CHR 0x0A] @ ''Prize'' @ [CHR 0x0A] @ ''Acme''],
       posts_page = Loaded [sample_post],
       comments_page =
         Loaded \<lparr> document_title = ''Activity | Jane Doe | LinkedIn'',
                  comment_items = [sample_comment] \<rparr>,
       page_close_error = None \<rparr>"

text \<open>
  What a run of the sample session at the profile URL \<open>u\<close> does to the browser, and
  the object it returns.
\<close>

definition sample_events :: "string \<Rightarrow> event list" where
  "sample_events u =
     [NewPage, CloseFirstPage, Goto u,
      NewPage, CloseFirstPage, Goto (u @ ''details/experience/''),
      NewPage, CloseFirstPage, Goto (u @ ''details/skills/''),
      NewPage, CloseFirstPage, Goto (u @ ''details/volunteering-experiences/''),
      NewPage, CloseFirstPage, Goto (u @ ''details/honors/''),
      NewPage, CloseFirstPage, Goto (u @ ''recent-activity/all/''),
      NewPage, CloseFirstPage, Goto (u @ ''/recent-activity/comments/'')]"

definition sample_result :: aggregated where
  "sample_result =
     returned_object (userProfile_of plain_lib (raw_profile sample_profile))
       (Object [(''0'', \<lparr> title = ''Engineer'', company = Some ''Acme'', startDate = ''2019'',
                            endDate = Some ''2021'', description = [] \<rparr>)])
       (map (education_of plain_lib) (raw_education sample_profile))
       (Array [\<lparr> skillName = ''Isabelle'' \<rparr>])
       (Array [])
       (Object [(''0'', make_post sample_post (Str ''1024'')
                            (Some (unixTimestampToHumanDate plain_lib (timestamp_of_bigint 1024))))])
       (Object [(''0'', make_comment plain_lib (Str ''2048'') (Str ''1024'') ''Great post!'' 2048)])"

text \<open>
  The specification's reading of the decoder: the number of binary digits of \<open>x\<close>, and
  the value of its \<open>k\<close> leading binary digits (all of them when there are fewer).
\<close>

definition binary_width :: "nat \<Rightarrow> nat" where
  "binary_width x = (if x = 0 then 1 else floorlog 2 x)"

definition leading_bits :: "nat \<Rightarrow> nat \<Rightarrow> nat" where
  "leading_bits k x = x div 2 ^ (binary_width x - k)"

section \<open>Properties of the decoder\<close>

lemma is_bit_bit_char: "is_bit (bit_char d)"
  by (simp add: bit_char_def is_bit_def)

lemma toString2_all_bits: "list_all is_bit (toString2 n)"
proof (induction n rule: toString2.induct)
  case (1 n)
  show ?case
  proof (cases "n < 2")
    case True
    then show ?thesis
      by (subst toString2.simps) (simp add: is_bit_bit_char)
  next
    case False
    with 1 show ?thesis
      by (subst toString2.simps) (simp add: is_bit_bit_char)
  qed
qed

lemma toString2_nonempty: "toString2 n \<noteq> []"
  by (subst toString2.simps) simp

lemma length_toString2: "length (toString2 n) = binary_width n"
proof (induction n rule: toString2.induct)
  case (1 n)
  show ?case
  proof (cases "n < 2")
    case True
    then have "n = 0 \<or> n = 1" by arith
    moreover have "floorlog 2 1 = 1"
      by (simp add: floorlog_def)
    ultimately have "binary_width n = 1"
      by (auto simp: binary_width_def)
    with True show ?thesis
      by (subst toString2.simps) simp
  next
    case False
    then have w: "binary_width n = binary_width (n div 2) + 1"
      by (simp add: binary_width_def compute_floorlog [of 2 n] div_eq_0_iff)
    from False 1 show ?thesis
      by (subst toString2.simps) (simp add: w)
  qed
qed

lemma bits_value_snoc: "bits_value (ds @ [c]) = 2 * bits_value ds + bit_value c"
  by (simp add: bits_value_def)

lemma bit_value_bit_char: "d < 2 \<Longrightarrow> bit_value (bit_char d) = d"
  by (auto simp: bit_value_def bit_char_def)

lemma bits_value_take_toString2:
  "0 < k \<Longrightarrow> bits_value (take k (toString2 n)) = n div 2 ^ (length (toString2 n) - k)"
proof (induction n rule: toString2.induct)
  case (1 n)
  show ?case
  proof (cases "n < 2")
    case True
    with 1(2) show ?thesis
      by (subst (1 2) toString2.simps) (simp add: bits_value_def bit_value_bit_char)
  next
    case False
    let ?h = "toString2 (n div 2)"
    have unf: "toString2 n = ?h @ [bit_char (n mod 2)]"
      using False by (subst toString2.simps) simp
    have IH: "bits_value (take k ?h) = (n div 2) div 2 ^ (length ?h - k)"
      using 1 False by simp
    show ?thesis
    proof (cases "k \<le> length ?h")
      case True
      then have "take k (toString2 n) = take k ?h"
        by (simp add: unf)
      moreover have "length (toString2 n) - k = Suc (length ?h - k)"
        using True by (simp add: unf Suc_diff_le)
      moreover have "(n div 2) div 2 ^ (length ?h - k) = n div 2 ^ Suc (length ?h - k)"
        by (simp add: div_mult2_eq)
      ultimately show ?thesis
        using IH by simp
    next
      case False
      then have all: "take k ?h = ?h" and z: "length ?h - k = 0"
        by simp_all
      have "bits_value ?h = n div 2"
        using IH all z by simp
      then have "bits_value (toString2 n) = n"
        by (simp add: unf bits_value_snoc bit_value_bit_char)
      moreover have "take k (toString2 n) = toString2 n"
        using False by (simp add: unf)
      moreover have "length (toString2 n) - k = 0"
        using False by (simp add: unf)
      ultimately show ?thesis
        by simp
    qed
  qed
qed

lemma takeWhile_all: "list_all P xs \<Longrightarrow> takeWhile P xs = xs"
  by (induction xs) auto

lemma timestamp_of_bigint_eq: "timestamp_of_bigint v = Some (leading_bits 41 v)"
proof -
  let ?p = "take 41 (toString2 v)"
  have bits: "list_all is_bit ?p"
    using toString2_all_bits [of v] by (auto simp: list_all_iff dest: in_set_takeD)
  have ne: "?p \<noteq> []"
    using toString2_nonempty [of v] by simp
  have "parseInt2 ?p = Some (bits_value ?p)"
    using ne by (simp add: parseInt2_def takeWhile_all [OF bits])
  moreover have "bits_value ?p = leading_bits 41 v"
    by (simp add: bits_value_take_toString2 leading_bits_def length_toString2)
  ultimately show ?thesis
    by (simp add: timestamp_of_bigint_def slice_def)
qed

lemma small_leading_bits: "x < 2 ^ 41 \<Longrightarrow> leading_bits 41 x = x"
proof -
  assume "x < 2 ^ 41"
  then have "binary_width x \<le> 41"
    by (simp add: binary_width_def floorlog_le_iff)
  then show ?thesis
    by (simp add: leading_bits_def)
qed

text \<open>
  C2. For every valid numeric identifier \<open>x\<close> (a decimal string or a number that
  \<^verbatim>\<open>BigInt\<close> accepts, of any size), \<open>extractUnixTimestamp\<close> returns the integer
  value of the leading 41 bits of the binary representation of \<open>x\<close>.
\<close>

theorem extractUnixTimestamp_leading_41_bits:
  "BigInt ident = Inr x \<Longrightarrow> extractUnixTimestamp ident = Inr (Some (leading_bits 41 x))"
  by (simp add: extractUnixTimestamp_def timestamp_of_bigint_eq)

theorem extractUnixTimestamp_leading_41_bits_witness:
  "BigInt (Str ''7193453098040102912'') = Inr 7193453098040102912 \<and>
   extractUnixTimestamp (Str ''7193453098040102912'') = Inr (Some 1715052866468)"
proof -
  have b: "BigInt (Str ''7193453098040102912'') = Inr 7193453098040102912"
    by (simp add: StringToBigInt_def is_digit_def digit_value_def)
  have "floorlog 2 7193453098040102912 \<le> 63" and "\<not> floorlog 2 7193453098040102912 \<le> 62"
    by (simp_all add: floorlog_le_iff)
  then have w: "binary_width 7193453098040102912 = 63"
    by (simp add: binary_width_def)
  have "leading_bits 41 7193453098040102912 = 1715052866468"
    by (simp add: leading_bits_def w)
  with extractUnixTimestamp_leading_41_bits [OF b] b show ?thesis
    by simp
qed

text \<open>
  C9. An identifier below \<open>2^40\<close> has fewer than 41 binary digits: the slice keeps
  all of them and \<open>extractUnixTimestamp\<close> returns the identifier itself, with no
  padding and no error.
\<close>

theorem extractUnixTimestamp_small_identity:
  "BigInt ident = Inr x \<Longrightarrow> x < 2 ^ 40 \<Longrightarrow> extractUnixTimestamp ident = Inr (Some x)"
proof -
  assume b: "BigInt ident = Inr x" and "x < 2 ^ 40"
  then have "x < 2 ^ 41"
    by simp
  then show ?thesis
    using b by (simp add: extractUnixTimestamp_def timestamp_of_bigint_eq small_leading_bits)
qed

theorem extractUnixTimestamp_small_identity_witness:
  "BigInt (Str ''1099511627775'') = Inr 1099511627775 \<and> (1099511627775 :: nat) < 2 ^ 40 \<and>
   extractUnixTimestamp (Str ''1099511627775'') = Inr (Some 1099511627775) \<and>
   extractUnixTimestamp (Num 0) = Inr (Some 0)"
proof -
  have b: "BigInt (Str ''1099511627775'') = Inr 1099511627775"
    by (simp add: StringToBigInt_def is_digit_def digit_value_def)
  have l: "(1099511627775 :: nat) < 2 ^ 40"
    by simp
  have z: "BigInt (Num 0) = Inr 0" and "(0 :: nat) < 2 ^ 40"
    by simp_all
  then have "extractUnixTimestamp (Num 0) = Inr (Some 0)"
    by (rule extractUnixTimestamp_small_identity)
  with extractUnixTimestamp_small_identity [OF b l] b l show ?thesis
    by simp
qed

section \<open>Properties of the extraction loops\<close>


lemma for_each_skip:
  assumes "\<And>x data. P x \<Longrightarrow> body x data = Inr data"
  shows "for_each body (filter (\<lambda>x. \<not> P x) xs) data = for_each body xs data"
proof (induction xs arbitrary: data)
  case Nil
  show ?case by simp
next
  case (Cons x xs)
  show ?case
  proof (cases "P x")
    case True
    with Cons assms [of x data] show ?thesis by simp
  next
    case False
    with Cons show ?thesis by (simp split: sum.splits)
  qed
qed

lemma experience_step_empty_state:
  "is_empty_state t \<Longrightarrow> experience_step t data = Inr data"
  by (auto simp: is_empty_state_def experience_step_def Let_def split: option.splits)

lemma honor_step_empty_state:
  "is_empty_state t \<Longrightarrow> honor_step t data = Inr data"
  by (auto simp: is_empty_state_def honor_step_def Let_def split: option.splits)

lemma experience_step_titles:
  "experience_step t data = Inr data' \<Longrightarrow>
   \<forall>r \<in> set data. \<not> includes_str (title r) ''Nothing to see'' \<Longrightarrow>
   \<forall>r \<in> set data'. \<not> includes_str (title r) ''Nothing to see''"
  by (auto simp: experience_step_def Let_def split: option.splits if_splits)

lemma honor_step_titles:
  "honor_step t data = Inr data' \<Longrightarrow>
   \<forall>r \<in> set data. \<not> includes_str (honor_title r) ''Nothing to see'' \<Longrightarrow>
   \<forall>r \<in> set data'. \<not> includes_str (honor_title r) ''Nothing to see''"
  by (auto simp: honor_step_def Let_def split: option.splits if_splits)

lemma for_each_invariant:
  assumes step: "\<And>x d d'. body x d = Inr d' \<Longrightarrow> I d \<Longrightarrow> I d'"
  shows "for_each body xs data = Inr data' \<Longrightarrow> I data \<Longrightarrow> I data'"
proof (induction xs arbitrary: data)
  case Nil
  then show ?case by simp
next
  case (Cons x xs)
  then show ?case
    by (auto split: sum.splits dest: step)
qed


text \<open>
  C8. An element whose primary label (the first line kept from its text) contains the
  empty-state marker \<^verbatim>\<open>Nothing to see\<close> adds no record: the experience, volunteering
  and honors extractors give what they give on the list without such elements, and no
  record of a result carries the marker in its title.
\<close>

theorem empty_state_elements_excluded:
  "experiences_evaluate items = experiences_evaluate (filter (\<lambda>t. \<not> is_empty_state t) items) \<and>
   volunteerings_evaluate items = volunteerings_evaluate (filter (\<lambda>t. \<not> is_empty_state t) items) \<and>
   honors_evaluate items = honors_evaluate (filter (\<lambda>t. \<not> is_empty_state t) items) \<and>
   (\<forall>recs. experiences_evaluate items = Inr recs \<longrightarrow>
      (\<forall>r \<in> set recs. \<not> includes_str (title r) ''Nothing to see'')) \<and>
   (\<forall>recs. volunteerings_evaluate items = Inr recs \<longrightarrow>
      (\<forall>r \<in> set recs. \<not> includes_str (title r) ''Nothing to see'')) \<and>
   (\<forall>recs. honors_evaluate items = Inr recs \<longrightarrow>
      (\<forall>r \<in> set recs. \<not> includes_str (honor_title r) ''Nothing to see''))"
proof -
  have e: "for_each experience_step (filter (\<lambda>t. \<not> is_empty_state t) items) [] =
           for_each experience_step items []"
    by (rule for_each_skip) (rule experience_step_empty_state)
  have h: "for_each honor_step (filter (\<lambda>t. \<not> is_empty_state t) items) [] =
           for_each honor_step items []"
    by (rule for_each_skip) (rule honor_step_empty_state)
  have te: "\<forall>r \<in> set recs. \<not> includes_str (title r) ''Nothing to see''"
    if "for_each experience_step items [] = Inr recs" for recs
    using that
    by (rule for_each_invariant [where I = "\<lambda>d. \<forall>r \<in> set d. \<not> includes_str (title r) ''Nothing to see''", rotated])
       (simp, rule experience_step_titles)
  have th: "\<forall>r \<in> set recs. \<not> includes_str (honor_title r) ''Nothing to see''"
    if "for_each honor_step items [] = Inr recs" for recs
    using that
    by (rule for_each_invariant [where I = "\<lambda>d. \<forall>r \<in> set d. \<not> includes_str (honor_title r) ''Nothing to see''", rotated])
       (simp, rule honor_step_titles)
  show ?thesis
    using e h te th
    by (simp add: experiences_evaluate_def volunteerings_evaluate_def honors_evaluate_def)
qed

theorem empty_state_elements_excluded_witness:
  "is_empty_state (''Nothing to see for now'' @ [CHR 0x0A, CHR 0x0A] @ ''Nothing yet'') \<and>
   experiences_evaluate
     [''Nothing to see for now'' @ [CHR 0x0A, CHR 0x0A] @ ''Nothing yet'',
      ''Engineer'' @ [CHR 0x0A] @ ''Engineer'' @ [CHR 0x0A] @ ''Acme'' @ [CHR 0x0A] @ ''Acme''
        @ [CHR 0x0A] @ ''2019 - 2021'' @ dot_separator @ ''2 yrs'' @ [CHR 0x0A] @ ''x''
        @ [CHR 0x0A] @ ''Built things'']
   = Inr [\<lparr> title = ''Engineer'', company = Some ''Acme'', startDate = ''2019'',
            endDate = Some ''2021'', description = ''Built things'' \<rparr>] \<and>
   honors_evaluate
     [''Nothing to see for now'' @ [CHR 0x0A, CHR 0x0A] @ ''Nothing yet'',
      ''Prize'' @ [CHR 0x0A] @ ''Prize'' @ [CHR 0x0A] @ ''Issued by Acme'' @ dot_separator @ ''Jan 2020'']
   = Inr [\<lparr> honor_title = ''Prize'', honor_company = ''Issued by Acme'', date = Some ''Jan 2020'',
            honor_description = [] \<rparr>]"
proof -
  let ?m = "''Nothing to see for now'' @ [CHR 0x0A, CHR 0x0A] @ ''Nothing yet''"
  let ?g = "''Engineer'' @ [CHR 0x0A] @ ''Engineer'' @ [CHR 0x0A] @ ''Acme'' @ [CHR 0x0A] @ ''Acme''
        @ [CHR 0x0A] @ ''2019 - 2021'' @ dot_separator @ ''2 yrs'' @ [CHR 0x0A] @ ''x''
        @ [CHR 0x0A] @ ''Built things''"
  let ?h = "''Prize'' @ [CHR 0x0A] @ ''Prize'' @ [CHR 0x0A] @ ''Issued by Acme'' @ dot_separator @ ''Jan 2020''"
  have m: "is_empty_state ?m"
    by (simp add: is_empty_state_def even_lines_def nth_opt_def)
  have g: "\<not> is_empty_state ?g"
    by (simp add: is_empty_state_def even_lines_def nth_opt_def dot_separator_def)
  have h: "\<not> is_empty_state ?h"
    by (simp add: is_empty_state_def even_lines_def nth_opt_def dot_separator_def)
  have eg: "experiences_evaluate [?g]
      = Inr [\<lparr> title = ''Engineer'', company = Some ''Acme'', startDate = ''2019'',
            endDate = Some ''2021'', description = ''Built things'' \<rparr>]"
    by (simp add: experiences_evaluate_def experience_step_def even_lines_def nth_opt_def
          dot_separator_def first_piece_def)
  have eh: "honors_evaluate [?h]
      = Inr [\<lparr> honor_title = ''Prize'', honor_company = ''Issued by Acme'', date = Some ''Jan 2020'',
            honor_description = [] \<rparr>]"
    by (simp add: honors_evaluate_def honor_step_def even_lines_def nth_opt_def
          dot_separator_def first_piece_def)
  from empty_state_elements_excluded [of "[?m, ?g]"] m g
  have "experiences_evaluate [?m, ?g] = experiences_evaluate [?g]"
    by simp
  moreover from empty_state_elements_excluded [of "[?m, ?h]"] m h
  have "honors_evaluate [?m, ?h] = honors_evaluate [?h]"
    by simp
  ultimately show ?thesis
    using m eg eh by simp
qed

subsection \<open>Deduplication of comments\<close>


















section \<open>Properties of the incremental-sync filter\<close>

lemma binary_width_pos_bounds: "0 < n \<Longrightarrow> 2 ^ (binary_width n - 1) \<le> n"
  using floorlog_bounds [of n 2] by (simp add: binary_width_def)

lemma round_to_double_pos:
  assumes "round_to_double n = Some d"
  shows "0 < d \<longleftrightarrow> 0 < n"
proof (cases "binary_width n \<le> 53")
  case True
  with assms show ?thesis
    by (simp add: round_to_double_def length_toString2)
next
  case False
  define e where "e = binary_width n - 53"
  have n: "0 < n"
    using False by (auto simp: binary_width_def intro: Suc_lessI gr0I)
  have "(2::nat) ^ e \<le> 2 ^ (binary_width n - 1)"
    unfolding e_def by (rule power_increasing) simp_all
  from this binary_width_pos_bounds [OF n] have "2 ^ e \<le> n"
    by (rule order_trans)
  then have q: "0 < n div 2 ^ e"
    by (simp add: div_greater_zero_iff)
  from assms False q have "0 < d"
    by (auto simp: round_to_double_def length_toString2 Let_def e_def split: if_splits)
  with n show ?thesis by simp
qed

lemma js_gt_zero: "js_gt v 0 = id_positive v"
proof (cases v)
  case (Str s)
  show ?thesis
  proof (cases "StringToBigInt s")
    case None
    with Str show ?thesis by (simp add: js_gt_def)
  next
    case (Some n)
    show ?thesis
    proof (cases "round_to_double n")
      case None
      then have "\<not> binary_width n \<le> 53"
        by (auto simp: round_to_double_def length_toString2)
      then have "0 < n"
        by (auto simp: binary_width_def intro: gr0I)
      with None Some Str show ?thesis by (simp add: js_gt_def)
    next
      case (Some d)
      from round_to_double_pos [OF Some] Some \<open>StringToBigInt s = Some n\<close> Str show ?thesis
        by (simp add: js_gt_def)
    qed
  qed
qed (simp_all add: js_gt_def)

text \<open>Below \<open>2^53\<close> the conversion is exact, and so is the comparison.\<close>

lemma round_to_double_small: "n < 2 ^ 53 \<Longrightarrow> round_to_double n = Some n"
proof -
  assume "n < 2 ^ 53"
  then have "binary_width n \<le> 53"
    by (simp add: binary_width_def floorlog_le_iff)
  then show ?thesis
    by (simp add: round_to_double_def length_toString2)
qed

lemma js_gt_exact_small:
  "StringToBigInt s = Some n \<Longrightarrow> n < 2 ^ 53 \<Longrightarrow> js_gt (Str s) w = (w < n)"
  by (simp add: js_gt_def round_to_double_small)

lemma width63: "length (toString2 7193453098040102913) = 63"
proof -
  have "floorlog 2 7193453098040102913 \<le> 63" and "\<not> floorlog 2 7193453098040102913 \<le> 62"
    by (simp_all add: floorlog_le_iff)
  then show ?thesis
    by (simp add: length_toString2 binary_width_def)
qed

lemma round_example: "round_to_double 7193453098040102913 = Some 7193453098040102912"
  by (simp add: round_to_double_def width63 Let_def)

text \<open>
  C1. The claim: the filter returns exactly the items whose identifier is strictly
  greater than the watermark, by exact integer comparison. The code compares with
  \<^verbatim>\<open>post.postId > lastPostID\<close>, which converts the identifier to a double. The post
  with identifier 7193453098040102913 is newer than the watermark 7193453098040102912
  and the filter drops it: both are the same double.
\<close>

theorem filterNewPosts_rounds_large_identifier:
  "posts_evaluate plain_lib
     [\<lparr>data_urn = Some ''urn:li:activity:7193453098040102913'', break_words_text = Some ''Hello'',
       reactions_count = Some 3, comments_count = None, shares_count = None\<rparr>]
   = Inr [make_post
            \<lparr>data_urn = Some ''urn:li:activity:7193453098040102913'', break_words_text = Some ''Hello'',
              reactions_count = Some 3, comments_count = None, shares_count = None\<rparr>
            (Str ''7193453098040102913'')
            (Some (unixTimestampToHumanDate plain_lib (timestamp_of_bigint 7193453098040102913)))] \<and>
   BigInt (Str ''7193453098040102913'') = Inr 7193453098040102913 \<and>
   (7193453098040102912 :: nat) < 7193453098040102913 \<and>
   filterNewPosts 7193453098040102912
     [make_post
        \<lparr>data_urn = Some ''urn:li:activity:7193453098040102913'', break_words_text = Some ''Hello'',
          reactions_count = Some 3, comments_count = None, shares_count = None\<rparr>
        (Str ''7193453098040102913'')
        (Some (unixTimestampToHumanDate plain_lib (timestamp_of_bigint 7193453098040102913)))]
   = []"
proof -
  have sb: "StringToBigInt ''7193453098040102913'' = Some 7193453098040102913"
    by (simp add: StringToBigInt_def is_digit_def digit_value_def)
  have ev: "posts_evaluate plain_lib
     [\<lparr>data_urn = Some ''urn:li:activity:7193453098040102913'', break_words_text = Some ''Hello'',
       reactions_count = Some 3, comments_count = None, shares_count = None\<rparr>]
   = Inr [make_post
            \<lparr>data_urn = Some ''urn:li:activity:7193453098040102913'', break_words_text = Some ''Hello'',
              reactions_count = Some 3, comments_count = None, shares_count = None\<rparr>
            (Str ''7193453098040102913'')
            (Some (unixTimestampToHumanDate plain_lib (timestamp_of_bigint 7193453098040102913)))]"
    by (simp add: posts_evaluate_def post_data_of_def or_null_def nth_opt_def sb)
  have gt: "\<not> js_gt (Str ''7193453098040102913'') 7193453098040102912"
    by (simp add: js_gt_def sb round_example)
  have fl: "filterNewPosts 7193453098040102912
     [make_post
        \<lparr>data_urn = Some ''urn:li:activity:7193453098040102913'', break_words_text = Some ''Hello'',
          reactions_count = Some 3, comments_count = None, shares_count = None\<rparr>
        (Str ''7193453098040102913'')
        (Some (unixTimestampToHumanDate plain_lib (timestamp_of_bigint 7193453098040102913)))]
   = []"
    using gt by (simp add: filterNewPosts_def make_post_def)
  show ?thesis
    using ev fl sb by simp
qed


text \<open>
  C6, as stated: a watermark of zero, or none, yields every extracted item. A post
  without \<^verbatim>\<open>data-urn\<close> is extracted with a null identifier, and the filter with the
  watermark of a run without options drops it.
\<close>

theorem zero_watermark_suppresses_items_counterexample:
  "posts_evaluate plain_lib
     [\<lparr>data_urn = None, break_words_text = Some ''Hello'',
       reactions_count = Some 3, comments_count = None, shares_count = None\<rparr>]
   = Inr [\<lparr>postId = Null, postText = Some ''Hello'', postDateDetails = None, postLikes = 3,
            postComments = None, postShares = None,
            postUrl = ''https://www.linkedin.com/feed/update/urn:li:activity:null''\<rparr>] \<and>
   filterNewPosts (lastPostID_of None)
     [\<lparr>postId = Null, postText = Some ''Hello'', postDateDetails = None, postLikes = 3,
        postComments = None, postShares = None,
        postUrl = ''https://www.linkedin.com/feed/update/urn:li:activity:null''\<rparr>]
   = [] \<and>
   filterNewPosts 0
     [\<lparr>postId = Null, postText = Some ''Hello'', postDateDetails = None, postLikes = 3,
        postComments = None, postShares = None,
        postUrl = ''https://www.linkedin.com/feed/update/urn:li:activity:null''\<rparr>]
   \<noteq>
     [\<lparr>postId = Null, postText = Some ''Hello'', postDateDetails = None, postLikes = 3,
        postComments = None, postShares = None,
        postUrl = ''https://www.linkedin.com/feed/update/urn:li:activity:null''\<rparr>]"
  by (simp add: posts_evaluate_def post_data_of_def or_null_def make_post_def or_zero_def
        num_or_null_def filterNewPosts_def lastPostID_of_def js_gt_def)

text \<open>
  C6, amended. A run without options uses the watermark zero for posts and comments,
  and the filter with watermark zero keeps, in order, exactly the items whose
  identifier denotes a positive number: a null identifier and the number zero are
  dropped.
\<close>

theorem zero_watermark_keeps_positive_identifiers:
  "lastPostID_of None = 0 \<and> lastCommentID_of None = 0 \<and>
   filterNewPosts 0 posts = filter (\<lambda>post. id_positive (postId post)) posts \<and>
   filterNewComments 0 comments = filter (\<lambda>comment. id_positive (commentId comment)) comments"
  by (simp add: lastPostID_of_def lastCommentID_of_def filterNewPosts_def filterNewComments_def js_gt_zero)

section \<open>Properties of \<^verbatim>\<open>run\<close>\<close>

lemma snd_and_then:
  "snd (and_then m f) = (case snd m of Inl e \<Rightarrow> Inl e | Inr a \<Rightarrow> snd (f a))"
  by (cases m) (auto simp: and_then_def split: sum.splits prod.splits)

lemma fst_and_then:
  "fst (and_then m f) = fst m @ (case snd m of Inl e \<Rightarrow> [] | Inr a \<Rightarrow> fst (f a))"
  by (cases m) (auto simp: and_then_def split: sum.splits prod.splits)

lemma snd_pure_step: "snd (pure_step r) = r"
  by (simp add: pure_step_def)

lemma fst_pure_step: "fst (pure_step r) = []"
  by (simp add: pure_step_def)

lemma snd_run_body:
  "snd (run_body L S W u lp lc) =
     (case snd (open_page S u (profile_page W)) of Inl e \<Rightarrow> Inl e | Inr p \<Rightarrow>
      case snd (getExperiences S W u) of Inl e \<Rightarrow> Inl e | Inr x \<Rightarrow>
      case snd (getSkills S W u) of Inl e \<Rightarrow> Inl e | Inr s \<Rightarrow>
      case snd (getVolunteerings S W u) of Inl e \<Rightarrow> Inl e | Inr v \<Rightarrow>
      case snd (getHonors S W u) of Inl e \<Rightarrow> Inl e | Inr h \<Rightarrow>
      case snd (getPosts L S W u lp) of Inl e \<Rightarrow> Inl e | Inr po \<Rightarrow>
      case snd (getComments L S W u lc) of Inl e \<Rightarrow> Inl e | Inr c \<Rightarrow>
      case snd (if \<not> keepAlive S then close True else page_close W) of Inl e \<Rightarrow> Inl e | Inr un \<Rightarrow>
        Inr (returned_object (userProfile_of L (raw_profile p)) x
                (map (education_of L) (raw_education p)) s v po c))"
  by (simp add: run_body_def snd_and_then snd_pure_step Let_def cong: sum.case_cong)

lemma snd_run:
  "snd (run L S W u opts) =
     (if \<not> browser S then Inl (Error ''Browser is not set. Please run the setup method first.'')
      else if u = [] then Inl (Error ''No profileUrl given.'')
      else if \<not> includes_str u ''linkedin.com/''
      then Inl (Error ''The given URL to scrape is not a linkedin.com url.'')
      else snd (run_body L S W u (lastPostID_of opts) (lastCommentID_of opts)))"
  by (cases "run_body L S W u (lastPostID_of opts) (lastCommentID_of opts)")
     (auto simp: run_def Let_def and_then_def close_def split: sum.splits)

lemma fst_run:
  "fst (run L S W u opts) =
     (if \<not> browser S \<or> u = [] \<or> \<not> includes_str u ''linkedin.com/'' then []
      else fst (run_body L S W u (lastPostID_of opts) (lastCommentID_of opts)))"
  by (cases "run_body L S W u (lastPostID_of opts) (lastCommentID_of opts)")
     (auto simp: run_def Let_def and_then_def close_def split: sum.splits)

lemma events_and_then:
  "set (fst m) \<subseteq> E \<Longrightarrow> (\<And>a. set (fst (f a)) \<subseteq> E) \<Longrightarrow> set (fst (and_then m f)) \<subseteq> E"
  by (auto simp: fst_and_then split: sum.splits)

lemma events_pure_step: "set (fst (pure_step r)) \<subseteq> E"
  by (simp add: pure_step_def)

lemma events_open_page:
  "set (fst (open_page S t p)) \<subseteq> {NewPage, CloseFirstPage} \<union> range Goto"
  by (cases p) (auto simp: open_page_def createPage_def goto_and_read_def and_then_def close_def)

lemma events_open_page':
  "{NewPage, CloseFirstPage} \<union> range Goto \<subseteq> E \<Longrightarrow> set (fst (open_page S t p)) \<subseteq> E"
  using events_open_page [of S t p] by blast

lemma events_sections:
  assumes "{NewPage, CloseFirstPage} \<union> range Goto \<subseteq> E"
  shows "set (fst (getExperiences S W u)) \<subseteq> E"
    and "set (fst (getSkills S W u)) \<subseteq> E"
    and "set (fst (getVolunteerings S W u)) \<subseteq> E"
    and "set (fst (getHonors S W u)) \<subseteq> E"
    and "set (fst (getPosts L S W u lp)) \<subseteq> E"
    and "set (fst (getComments L S W u lc)) \<subseteq> E"
  unfolding getExperiences_def getSkills_def getVolunteerings_def getHonors_def getPosts_def
    getComments_def
  by ((rule events_and_then, rule events_open_page', rule assms,
       simp add: fst_pure_step split: sum.splits)+)

lemma events_run_body:
  assumes "{NewPage, CloseFirstPage} \<union> range Goto \<subseteq> E"
    and "set (fst (if \<not> keepAlive S then close True else page_close W)) \<subseteq> E"
  shows "set (fst (run_body L S W u lp lc)) \<subseteq> E"
  unfolding run_body_def Let_def
  by (intro events_and_then events_open_page' [OF assms(1)] events_sections [OF assms(1)]
        assms(2) events_pure_step)

lemma events_run:
  "set (fst (run L S W u opts)) \<subseteq>
     {NewPage, CloseFirstPage} \<union> range Goto \<union> (if keepAlive S then {ClosePage} else {})"
proof -
  let ?E = "{NewPage, CloseFirstPage} \<union> range Goto \<union> (if keepAlive S then {ClosePage} else {})"
  have "set (fst (if \<not> keepAlive S then close True else page_close W)) \<subseteq> ?E"
    by (auto simp: close_def page_close_def split: option.splits)
  then have "set (fst (run_body L S W u (lastPostID_of opts) (lastCommentID_of opts))) \<subseteq> ?E"
    by (intro events_run_body) auto
  then show ?thesis
    by (simp add: fst_run)
qed

lemma sections_are_objects:
  "snd (getExperiences S W u) = Inr x \<Longrightarrow> \<exists>kv. x = Object kv"
  "snd (getPosts L S W u lp) = Inr po \<Longrightarrow> \<exists>kv. po = Object kv"
  "snd (getComments L S W u lc) = Inr c \<Longrightarrow> \<exists>kv. c = Object kv"
  by (auto simp: getExperiences_def getPosts_def getComments_def snd_and_then snd_pure_step
        spread_def split: sum.splits)

lemma run_Inr_sections:
  assumes "snd (run L S W u opts) = Inr r"
  shows "\<exists>p x s v h po c.
           snd (open_page S u (profile_page W)) = Inr p \<and>
           snd (getExperiences S W u) = Inr x \<and>
           snd (getSkills S W u) = Inr s \<and>
           snd (getVolunteerings S W u) = Inr v \<and>
           snd (getHonors S W u) = Inr h \<and>
           snd (getPosts L S W u (lastPostID_of opts)) = Inr po \<and>
           snd (getComments L S W u (lastCommentID_of opts)) = Inr c \<and>
           r = (returned_object (userProfile_of L (raw_profile p)) x
                (map (education_of L) (raw_education p)) s v po c)"
proof -
  from assms have "snd (run_body L S W u (lastPostID_of opts) (lastCommentID_of opts)) = Inr r"
    by (simp add: snd_run split: if_splits)
  then show ?thesis
    unfolding snd_run_body by (simp split: sum.splits)
qed

lemma run_Inl_source:
  assumes "snd (run L S W u opts) = Inl e" "browser S" "u \<noteq> []" "includes_str u ''linkedin.com/''"
  shows "snd (open_page S u (profile_page W)) = Inl e \<or>
         snd (getExperiences S W u) = Inl e \<or>
         snd (getSkills S W u) = Inl e \<or>
         snd (getVolunteerings S W u) = Inl e \<or>
         snd (getHonors S W u) = Inl e \<or>
         snd (getPosts L S W u (lastPostID_of opts)) = Inl e \<or>
         snd (getComments L S W u (lastCommentID_of opts)) = Inl e \<or>
         (keepAlive S \<and> page_close_error W = Some e)"
proof -
  from assms have "snd (run_body L S W u (lastPostID_of opts) (lastCommentID_of opts)) = Inl e"
    by (simp add: snd_run)
  then show ?thesis
    unfolding snd_run_body
    by (auto simp: close_def page_close_def split: sum.splits if_splits option.splits)
qed

text \<open>
  C3. The claim: the result of a successful run holds the profile and arrays of
  experience, education, license, language, skill, volunteering and honor records and
  the two filtered feed arrays. The object the code returns has exactly the seven
  properties below: the honors are extracted and not returned, the licenses and the
  languages neither; and the experiences, the posts and the comments are objects with
  the keys \<^verbatim>\<open>"0"\<close>, \<^verbatim>\<open>"1"\<close>, ... (an array spread into an object literal), not arrays.
\<close>

theorem run_result_sections:
  assumes "snd (run L S W u opts) = Inr r"
  shows "map fst r = [''userProfile'', ''experiences'', ''education'', ''skills'',
                      ''volunteerings'', ''posts'', ''comments''] \<and>
         map_of r ''honors'' = None \<and> map_of r ''license'' = None \<and>
         map_of r ''language'' = None \<and>
         (\<exists>h. snd (getHonors S W u) = Inr h) \<and>
         (\<exists>kv. map_of r ''experiences'' = Some (ExperienceValues (Object kv))) \<and>
         (\<exists>kv. map_of r ''posts'' = Some (PostValues (Object kv))) \<and>
         (\<exists>kv. map_of r ''comments'' = Some (CommentValues (Object kv)))"
proof -
  from run_Inr_sections [OF assms] obtain p :: profile_dom and x s v h po c where
    sec: "snd (getExperiences S W u) = Inr x" "snd (getHonors S W u) = Inr h"
      "snd (getPosts L S W u (lastPostID_of opts)) = Inr po"
      "snd (getComments L S W u (lastCommentID_of opts)) = Inr c"
    and r: "r = (returned_object (userProfile_of L (raw_profile p)) x
                (map (education_of L) (raw_education p)) s v po c)"
    by (elim exE conjE) (rule that, assumption+)
  from sections_are_objects(1) [OF sec(1)] sections_are_objects(2) [OF sec(3)]
    sections_are_objects(3) [OF sec(4)]
  obtain kx kp kc where "x = Object kx" "po = Object kp" "c = Object kc"
    by blast
  with r sec(2) show ?thesis
    by (simp add: returned_object_def)
qed

text \<open>
  C4. The claim: on every path \<^verbatim>\<open>run\<close> releases the browser before it returns or
  rethrows. \<^verbatim>\<open>close\<close> resolves before its cleanup code, so no run ever closes the
  browser or kills its process, and without \<^verbatim>\<open>keepAlive\<close> no page of the run is closed
  by \<^verbatim>\<open>run\<close> either.
\<close>

theorem run_never_closes_browser:
  "CloseBrowser \<notin> set (fst (run L S W u opts)) \<and>
   KillProcess \<notin> set (fst (run L S W u opts)) \<and>
   (\<not> keepAlive S \<longrightarrow> ClosePage \<notin> set (fst (run L S W u opts)))"
  using events_run [of L S W u opts] by (auto split: if_splits)

text \<open>
  C5. \<^verbatim>\<open>run\<close> returns no partial aggregation. When it returns an object, every section
  extractor has succeeded and the object is built from their values; when any section
  fails, \<^verbatim>\<open>run\<close> fails; and the error of a run that passed the initial checks is the
  error of one of its sections (or of the final \<^verbatim>\<open>page.close()\<close> under \<^verbatim>\<open>keepAlive\<close>).
\<close>

theorem run_returns_no_partial_aggregation:
  "(\<forall>r. snd (run L S W u opts) = Inr r \<longrightarrow>
      (\<exists>p x s v h po c.
         snd (open_page S u (profile_page W)) = Inr p \<and>
         snd (getExperiences S W u) = Inr x \<and>
         snd (getSkills S W u) = Inr s \<and>
         snd (getVolunteerings S W u) = Inr v \<and>
         snd (getHonors S W u) = Inr h \<and>
         snd (getPosts L S W u (lastPostID_of opts)) = Inr po \<and>
         snd (getComments L S W u (lastCommentID_of opts)) = Inr c \<and>
         r = (returned_object (userProfile_of L (raw_profile p)) x
                (map (education_of L) (raw_education p)) s v po c))) \<and>
   ((\<exists>e. snd (open_page S u (profile_page W)) = Inl e \<or>
         snd (getExperiences S W u) = Inl e \<or>
         snd (getSkills S W u) = Inl e \<or>
         snd (getVolunteerings S W u) = Inl e \<or>
         snd (getHonors S W u) = Inl e \<or>
         snd (getPosts L S W u (lastPostID_of opts)) = Inl e \<or>
         snd (getComments L S W u (lastCommentID_of opts)) = Inl e) \<longrightarrow>
      (\<exists>e. snd (run L S W u opts) = Inl e)) \<and>
   (\<forall>e. snd (run L S W u opts) = Inl e \<and> browser S \<and> u \<noteq> [] \<and>
        includes_str u ''linkedin.com/'' \<longrightarrow>
      snd (open_page S u (profile_page W)) = Inl e \<or>
      snd (getExperiences S W u) = Inl e \<or>
      snd (getSkills S W u) = Inl e \<or>
      snd (getVolunteerings S W u) = Inl e \<or>
      snd (getHonors S W u) = Inl e \<or>
      snd (getPosts L S W u (lastPostID_of opts)) = Inl e \<or>
      snd (getComments L S W u (lastCommentID_of opts)) = Inl e \<or>
      (keepAlive S \<and> page_close_error W = Some e))"
proof (intro conjI allI impI)
  fix r
  assume "snd (run L S W u opts) = Inr r"
  then show "\<exists>p x s v h po c.
         snd (open_page S u (profile_page W)) = Inr p \<and>
         snd (getExperiences S W u) = Inr x \<and>
         snd (getSkills S W u) = Inr s \<and>
         snd (getVolunteerings S W u) = Inr v \<and>
         snd (getHonors S W u) = Inr h \<and>
         snd (getPosts L S W u (lastPostID_of opts)) = Inr po \<and>
         snd (getComments L S W u (lastCommentID_of opts)) = Inr c \<and>
         r = (returned_object (userProfile_of L (raw_profile p)) x
                (map (education_of L) (raw_education p)) s v po c)"
    by (rule run_Inr_sections)
next
  assume fails: "\<exists>e. snd (open_page S u (profile_page W)) = Inl e \<or>
         snd (getExperiences S W u) = Inl e \<or>
         snd (getSkills S W u) = Inl e \<or>
         snd (getVolunteerings S W u) = Inl e \<or>
         snd (getHonors S W u) = Inl e \<or>
         snd (getPosts L S W u (lastPostID_of opts)) = Inl e \<or>
         snd (getComments L S W u (lastCommentID_of opts)) = Inl e"
  show "\<exists>e. snd (run L S W u opts) = Inl e"
  proof (cases "snd (run L S W u opts)")
    case (Inl e)
    then show ?thesis by blast
  next
    case (Inr r)
    from run_Inr_sections [OF Inr] fails show ?thesis
      by auto
  qed
next
  fix e
  assume "snd (run L S W u opts) = Inl e \<and> browser S \<and> u \<noteq> [] \<and>
        includes_str u ''linkedin.com/''"
  then show "snd (open_page S u (profile_page W)) = Inl e \<or>
      snd (getExperiences S W u) = Inl e \<or>
      snd (getSkills S W u) = Inl e \<or>
      snd (getVolunteerings S W u) = Inl e \<or>
      snd (getHonors S W u) = Inl e \<or>
      snd (getPosts L S W u (lastPostID_of opts)) = Inl e \<or>
      snd (getComments L S W u (lastCommentID_of opts)) = Inl e \<or>
      (keepAlive S \<and> page_close_error W = Some e)"
    by (intro run_Inl_source) simp_all
qed

text \<open>
  What the guard \<^verbatim>\<open>profileUrl.includes('linkedin.com/')\<close> does achieve: a URL that does
  not contain \<^verbatim>\<open>linkedin.com/\<close> makes \<^verbatim>\<open>run\<close> fail before any page is created and
  before any navigation, with no event at all.
\<close>

lemma run_rejects_url_without_marker:
  "(\<not> includes_str u ''linkedin.com/'' \<longrightarrow> (\<exists>e. run L S W u opts = ([], Inl e))) \<and>
   (fst (run L S W u opts) \<noteq> [] \<longrightarrow> includes_str u ''linkedin.com/'')"
  by (auto simp: run_def Let_def fst_run)

subsection \<open>The sample session\<close>

lemma sample_keepAlive: "keepAlive sample_scraper = False"
  by (simp add: sample_scraper_def)

lemma open_page_loaded:
  "browser S \<Longrightarrow> open_page S t (Loaded d) = ([NewPage, CloseFirstPage, Goto t], Inr d)"
  by (simp add: open_page_def createPage_def goto_and_read_def and_then_def)

lemma spread_single: "spread [x] = Object [(''0'', x)]"
  by (simp add: spread_def decimal.simps [of 0] digit_char_def)

lemma sample_experiences:
  "getExperiences sample_scraper sample_world u =
     ([NewPage, CloseFirstPage, Goto (u @ ''details/experience/'')],
      Inr (Object [(''0'', \<lparr> title = ''Engineer'', company = Some ''Acme'', startDate = ''2019'',
                            endDate = Some ''2021'', description = [] \<rparr>)]))"
  by (simp add: getExperiences_def sample_world_def sample_scraper_def open_page_loaded
        and_then_def pure_step_def experiences_evaluate_def experience_step_def even_lines_def
        nth_opt_def dot_separator_def first_piece_def spread_single)

lemma sample_skills:
  "getSkills sample_scraper sample_world u =
     ([NewPage, CloseFirstPage, Goto (u @ ''details/skills/'')],
      Inr (Array [\<lparr> skillName = ''Isabelle'' \<rparr>]))"
  by (simp add: getSkills_def sample_world_def sample_scraper_def open_page_loaded
        and_then_def pure_step_def skills_evaluate_def skill_step_def first_piece_def)

lemma sample_volunteerings:
  "getVolunteerings sample_scraper sample_world u =
     ([NewPage, CloseFirstPage, Goto (u @ ''details/volunteering-experiences/'')],
      Inr (Array []))"
  by (simp add: getVolunteerings_def sample_world_def sample_scraper_def open_page_loaded
        and_then_def pure_step_def volunteerings_evaluate_def experience_step_def even_lines_def
        nth_opt_def)

lemma sample_honors:
  "getHonors sample_scraper sample_world u =
     ([NewPage, CloseFirstPage, Goto (u @ ''details/honors/'')],
      Inr (Array [\<lparr> honor_title = ''Prize'', honor_company = ''Acme'', date = None,
                     honor_description = [] \<rparr>]))"
  by (simp add: getHonors_def sample_world_def sample_scraper_def open_page_loaded
        and_then_def pure_step_def honors_evaluate_def honor_step_def even_lines_def
        nth_opt_def dot_separator_def first_piece_def)

lemma sample_posts:
  "getPosts plain_lib sample_scraper sample_world u 0 =
     ([NewPage, CloseFirstPage, Goto (u @ ''recent-activity/all/'')],
      Inr (Object [(''0'', make_post sample_post (Str ''1024'')
                            (Some (unixTimestampToHumanDate plain_lib (timestamp_of_bigint 1024))))]))"
proof -
  have sb: "StringToBigInt ''1024'' = Some 1024"
    by (simp add: StringToBigInt_def is_digit_def digit_value_def)
  have ev: "posts_evaluate plain_lib [sample_post] =
      Inr [make_post sample_post (Str ''1024'')
             (Some (unixTimestampToHumanDate plain_lib (timestamp_of_bigint 1024)))]"
    by (simp add: posts_evaluate_def post_data_of_def sample_post_def or_null_def nth_opt_def sb)
  have keep: "js_gt (Str ''1024'') 0"
    by (simp add: js_gt_zero sb)
  show ?thesis
    using keep
    by (simp add: getPosts_def sample_world_def sample_scraper_def open_page_loaded and_then_def
          pure_step_def ev filterNewPosts_def make_post_def spread_single)
qed

lemma sample_comments:
  "getComments plain_lib sample_scraper sample_world u 0 =
     ([NewPage, CloseFirstPage, Goto (u @ ''/recent-activity/comments/'')],
      Inr (Object [(''0'', make_comment plain_lib (Str ''2048'') (Str ''1024'') ''Great post!'' 2048)]))"
proof -
  have sb: "StringToBigInt ''2048'' = Some 2048"
    by (simp add: StringToBigInt_def is_digit_def digit_value_def)
  have po: "profile_owner_of ''Activity | Jane Doe | LinkedIn'' = Some ''Jane Doe''"
    by (simp add: profile_owner_of_def nth_opt_def)
  have cid: "commentId_of (Some ''urn:li:comment:(activity:1024,2048)'') = Inr (Str ''2048'')"
    by (simp add: commentId_of_def data_id_piece_def nth_opt_def str_or_zero_def)
  have pid: "commentPostId_of (Some ''urn:li:comment:(activity:1024,2048)'') = Inr (Str ''1024'')"
    by (simp add: commentPostId_of_def data_id_piece_def nth_opt_def str_or_zero_def)
  have ev: "comments_evaluate plain_lib
       \<lparr> document_title = ''Activity | Jane Doe | LinkedIn'', comment_items = [sample_comment] \<rparr> =
      Inr [make_comment plain_lib (Str ''2048'') (Str ''1024'') ''Great post!'' 2048]"
    by (simp add: comments_evaluate_def po comment_step_def push_comment_def sample_comment_def
          cid pid sb)
  have keep: "js_gt (Str ''2048'') 0"
    by (simp add: js_gt_zero sb)
  show ?thesis
    using keep
    by (simp add: getComments_def sample_world_def sample_scraper_def open_page_loaded and_then_def
          pure_step_def ev filterNewComments_def make_comment_def spread_single)
qed

lemma sample_profile_page:
  "open_page sample_scraper u (profile_page sample_world) =
     ([NewPage, CloseFirstPage, Goto u], Inr sample_profile)"
  by (simp add: sample_world_def sample_scraper_def open_page_loaded)

lemma sample_run:
  assumes "u \<noteq> []" "includes_str u ''linkedin.com/''"
  shows "run plain_lib sample_scraper sample_world u None = (sample_events u, Inr sample_result)"
proof -
  have body: "run_body plain_lib sample_scraper sample_world u 0 0 = (sample_events u, Inr sample_result)"
    by (simp add: run_body_def sample_profile_page sample_experiences sample_skills
          sample_volunteerings sample_honors sample_posts sample_comments and_then_def
          pure_step_def close_def sample_events_def sample_result_def Let_def
          sample_keepAlive)
  have b: "browser sample_scraper"
    by (simp add: sample_scraper_def)
  show ?thesis
    using assms b
    by (simp add: run_def lastPostID_of_def lastCommentID_of_def body and_then_def)
qed

lemma good_url:
  "includes_str ''https://www.linkedin.com/in/jane/'' ''linkedin.com/''"
  by simp

lemma evil_url:
  "includes_str ''https://evil.example/linkedin.com/'' ''linkedin.com/''"
  "\<not> belongs_to_linkedin ''https://evil.example/linkedin.com/''"
  "belongs_to_linkedin ''https://www.linkedin.com/in/jane/''"
  by (simp_all add: belongs_to_linkedin_def url_host_def suffix_def)

lemma sample_failing_honors:
  "snd (getHonors sample_scraper
     (sample_world \<lparr> honors_page := LoadFails (Error ''Navigation timeout'') \<rparr>) u) =
   Inl (Error ''Navigation timeout'')"
  by (simp add: getHonors_def open_page_def createPage_def goto_and_read_def and_then_def
        sample_scraper_def)

text \<open>
  C7. The claim: a URL that does not belong to linkedin.com makes \<^verbatim>\<open>run\<close> fail before
  any page is created and before any navigation. The guard, whose error message reads
  \<^verbatim>\<open>The given URL to scrape is not a linkedin.com url.\<close>, only tests whether the text
  \<^verbatim>\<open>linkedin.com/\<close> occurs in the URL. The host of
  \<^verbatim>\<open>https://evil.example/linkedin.com/\<close> is not linkedin.com; the URL passes the guard,
  and the run creates its pages, navigates to that host and returns a result.
\<close>

theorem run_navigates_foreign_url:
  "\<not> belongs_to_linkedin ''https://evil.example/linkedin.com/'' \<and>
   run plain_lib sample_scraper sample_world ''https://evil.example/linkedin.com/'' None =
     (sample_events ''https://evil.example/linkedin.com/'', Inr sample_result) \<and>
   Goto ''https://evil.example/linkedin.com/'' \<in> set (sample_events ''https://evil.example/linkedin.com/'')"
proof -
  have "run plain_lib sample_scraper sample_world ''https://evil.example/linkedin.com/'' None =
     (sample_events ''https://evil.example/linkedin.com/'', Inr sample_result)"
    by (rule sample_run) (simp_all add: evil_url(1))
  then show ?thesis
    using evil_url(2) by (simp add: sample_events_def)
qed

lemma run_rejects_url_without_marker_example:
  "\<not> includes_str ''https://www.example.com/in/jane/'' ''linkedin.com/'' \<and>
   run plain_lib sample_scraper sample_world ''https://www.example.com/in/jane/'' None =
     ([], Inl (Error ''The given URL to scrape is not a linkedin.com url.'')) \<and>
   fst (run plain_lib sample_scraper sample_world ''https://www.linkedin.com/in/jane/'' None) \<noteq> [] \<and>
   includes_str ''https://www.linkedin.com/in/jane/'' ''linkedin.com/''"
proof -
  have n: "\<not> includes_str ''https://www.example.com/in/jane/'' ''linkedin.com/''"
    by simp
  with run_rejects_url_without_marker
    [of "''https://www.example.com/in/jane/''" plain_lib sample_scraper sample_world None]
  obtain e where e: "run plain_lib sample_scraper sample_world ''https://www.example.com/in/jane/'' None
      = ([], Inl e)"
    by blast
  have "snd (run plain_lib sample_scraper sample_world ''https://www.example.com/in/jane/'' None)
      = Inl (Error ''The given URL to scrape is not a linkedin.com url.'')"
    using n by (simp add: snd_run sample_scraper_def)
  with e have r: "run plain_lib sample_scraper sample_world ''https://www.example.com/in/jane/'' None
      = ([], Inl (Error ''The given URL to scrape is not a linkedin.com url.''))"
    by simp
  have "fst (run plain_lib sample_scraper sample_world ''https://www.linkedin.com/in/jane/'' None) \<noteq> []"
    by (simp add: sample_run good_url sample_events_def)
  with run_rejects_url_without_marker
    [of "''https://www.linkedin.com/in/jane/''" plain_lib sample_scraper sample_world None]
  show ?thesis
    using n r by blast
qed

theorem run_never_closes_browser_witness:
  "\<not> keepAlive sample_scraper \<and>
   fst (run plain_lib sample_scraper sample_world ''https://www.linkedin.com/in/jane/'' None) =
     sample_events ''https://www.linkedin.com/in/jane/'' \<and>
   snd (run plain_lib sample_scraper sample_world ''https://www.linkedin.com/in/jane/'' None) =
     Inr sample_result \<and>
   CloseBrowser \<notin> set (sample_events ''https://www.linkedin.com/in/jane/'') \<and>
   KillProcess \<notin> set (sample_events ''https://www.linkedin.com/in/jane/'') \<and>
   ClosePage \<notin> set (sample_events ''https://www.linkedin.com/in/jane/'')"
proof -
  have k: "\<not> keepAlive sample_scraper"
    by (simp add: sample_scraper_def)
  have r: "run plain_lib sample_scraper sample_world ''https://www.linkedin.com/in/jane/'' None =
     (sample_events ''https://www.linkedin.com/in/jane/'', Inr sample_result)"
    by (rule sample_run) (simp_all add: good_url)
  from run_never_closes_browser
    [of plain_lib sample_scraper sample_world "''https://www.linkedin.com/in/jane/''" None] k
  show ?thesis
    by (simp add: r)
qed

theorem run_result_sections_witness:
  "snd (run plain_lib sample_scraper sample_world ''https://www.linkedin.com/in/jane/'' None) =
     Inr sample_result \<and>
   map fst sample_result = [''userProfile'', ''experiences'', ''education'', ''skills'',
                            ''volunteerings'', ''posts'', ''comments''] \<and>
   map_of sample_result ''honors'' = None \<and>
   snd (getHonors sample_scraper sample_world ''https://www.linkedin.com/in/jane/'') =
     Inr (Array [\<lparr> honor_title = ''Prize'', honor_company = ''Acme'', date = None,
                    honor_description = [] \<rparr>]) \<and>
   map_of sample_result ''comments'' =
     Some (CommentValues
       (Object [(''0'', make_comment plain_lib (Str ''2048'') (Str ''1024'') ''Great post!'' 2048)]))"
proof -
  have r: "snd (run plain_lib sample_scraper sample_world ''https://www.linkedin.com/in/jane/'' None) =
     Inr sample_result"
    by (simp add: sample_run good_url)
  have c: "map_of sample_result ''comments'' =
     Some (CommentValues
       (Object [(''0'', make_comment plain_lib (Str ''2048'') (Str ''1024'') ''Great post!'' 2048)]))"
    by (simp add: sample_result_def returned_object_def)
  from run_result_sections [OF r] r c show ?thesis
    by (simp add: sample_honors)
qed

theorem run_returns_no_partial_aggregation_witness:
  "snd (run plain_lib sample_scraper sample_world ''https://www.linkedin.com/in/jane/'' None) =
     Inr sample_result \<and>
   snd (getPosts plain_lib sample_scraper sample_world ''https://www.linkedin.com/in/jane/''
          (lastPostID_of None)) =
     Inr (Object [(''0'', make_post sample_post (Str ''1024'')
                            (Some (unixTimestampToHumanDate plain_lib (timestamp_of_bigint 1024))))]) \<and>
   snd (getHonors sample_scraper
          (sample_world \<lparr> honors_page := LoadFails (Error ''Navigation timeout'') \<rparr>)
          ''https://www.linkedin.com/in/jane/'') = Inl (Error ''Navigation timeout'') \<and>
   (\<exists>e. snd (run plain_lib sample_scraper
               (sample_world \<lparr> honors_page := LoadFails (Error ''Navigation timeout'') \<rparr>)
               ''https://www.linkedin.com/in/jane/'' None) = Inl e)"
proof -
  let ?u = "''https://www.linkedin.com/in/jane/''"
  let ?W = "sample_world \<lparr> honors_page := LoadFails (Error ''Navigation timeout'') \<rparr>"
  have r: "snd (run plain_lib sample_scraper sample_world ?u None) = Inr sample_result"
    by (simp add: sample_run good_url)
  have p: "snd (getPosts plain_lib sample_scraper sample_world ?u (lastPostID_of None)) =
     Inr (Object [(''0'', make_post sample_post (Str ''1024'')
                            (Some (unixTimestampToHumanDate plain_lib (timestamp_of_bigint 1024))))])"
    by (simp add: lastPostID_of_def sample_posts)
  have h: "snd (getHonors sample_scraper ?W ?u) = Inl (Error ''Navigation timeout'')"
    by (rule sample_failing_honors)
  from run_returns_no_partial_aggregation [of plain_lib sample_scraper ?W ?u None] h
  have "\<exists>e. snd (run plain_lib sample_scraper ?W ?u None) = Inl e"
    by blast
  with r p h show ?thesis
    by simp
qed

end
